theory Spec2Isabelle
  imports Complex_Main
begin

section \<open>Radon-222 decay plot: the data tables and the analytic curve\<close>

text \<open>
  After its two imports the script \<^verbatim>\<open>Code/plot.py\<close> binds fifteen module-level names,
  draws two charts from them and ends. It has no function, loop or branch. A numpy array
  of float64 is modelled as a list of reals; a decimal literal of the source stands for
  the number it denotes (\<^verbatim>\<open>7.503e+14\<close> is written \<open>7.503 * 10 ^ 14\<close>), and numpy's
  element-wise arithmetic is \<open>map\<close> with exact operations. Every simulation value is an
  integer below \<open>2 ^ 53\<close> and so is a binary64 number as it stands. Where a statement is
  about exactness in floating point, the operations are modelled a second time with
  binary64 rounding (section ``Binary64 arithmetic'').
\<close>

type_synonym ndarray = "real list"

subsection \<open>Element-wise numpy operations used by the script\<close>

definition nd_div :: "ndarray \<Rightarrow> real \<Rightarrow> ndarray" where
  \<comment> \<open>\<^verbatim>\<open>a / c\<close> for an array and a scalar\<close>
  "nd_div a c = map (\<lambda>x. x / c) a"

definition nd_mul :: "real \<Rightarrow> ndarray \<Rightarrow> ndarray" where
  \<comment> \<open>\<^verbatim>\<open>c * a\<close> for a scalar and an array\<close>
  "nd_mul c a = map (\<lambda>x. c * x) a"

definition np_exp :: "ndarray \<Rightarrow> ndarray" where
  \<comment> \<open>\<^verbatim>\<open>np.exp(a)\<close>\<close>
  "np_exp a = map exp a"

subsection \<open>Part 1: time samples\<close>

definition waktu :: ndarray where
  "waktu = [0.00, 132140.16, 264280.32, 396420.48, 528560.64,
            660700.80, 792840.96, 924981.12, 1057121.28, 1189261.44, 1321401.60]"

definition waktu_hari :: ndarray where
  "waktu_hari = nd_div waktu (24 * 3600)"

subsection \<open>Part 2: numerical simulation results\<close>

definition N_dt_33035 :: ndarray where
  \<comment> \<open>dt = 33035 s, large time step (about 9.18 h)\<close>
  "N_dt_33035 = [1.000 * 10 ^ 15, 7.503 * 10 ^ 14, 5.629 * 10 ^ 14, 4.223 * 10 ^ 14, 3.168 * 10 ^ 14,
                 2.377 * 10 ^ 14, 1.783 * 10 ^ 14, 1.338 * 10 ^ 14, 1.004 * 10 ^ 14, 7.532 * 10 ^ 13, 5.651 * 10 ^ 13]"

definition N_dt_16518 :: ndarray where
  \<comment> \<open>dt = 16518 s, medium time step (about 4.59 h)\<close>
  "N_dt_16518 = [1.000 * 10 ^ 15, 7.541 * 10 ^ 14, 5.687 * 10 ^ 14, 4.289 * 10 ^ 14, 3.235 * 10 ^ 14,
                 2.439 * 10 ^ 14, 1.840 * 10 ^ 14, 1.387 * 10 ^ 14, 1.046 * 10 ^ 14, 7.890 * 10 ^ 13, 5.950 * 10 ^ 13]"

definition N_dt_6607 :: ndarray where
  \<comment> \<open>dt = 6607 s, middle time step (about 1.84 h)\<close>
  "N_dt_6607 = [1.000 * 10 ^ 15, 7.564 * 10 ^ 14, 5.721 * 10 ^ 14, 4.327 * 10 ^ 14, 3.273 * 10 ^ 14,
                2.476 * 10 ^ 14, 1.873 * 10 ^ 14, 1.417 * 10 ^ 14, 1.071 * 10 ^ 14, 8.104 * 10 ^ 13, 6.130 * 10 ^ 13]"

definition N_dt_3304 :: ndarray where
  \<comment> \<open>dt = 3304 s, small time step (about 0.92 h)\<close>
  "N_dt_3304 = [1.000 * 10 ^ 15, 7.571 * 10 ^ 14, 5.732 * 10 ^ 14, 4.340 * 10 ^ 14, 3.286 * 10 ^ 14,
                2.488 * 10 ^ 14, 1.884 * 10 ^ 14, 1.426 * 10 ^ 14, 1.080 * 10 ^ 14, 8.176 * 10 ^ 13, 6.190 * 10 ^ 13]"

definition N_dt_1652 :: ndarray where
  \<comment> \<open>dt = 1652 s, very small time step (about 0.46 h)\<close>
  "N_dt_1652 = [1.000 * 10 ^ 15, 7.575 * 10 ^ 14, 5.738 * 10 ^ 14, 4.346 * 10 ^ 14, 3.292 * 10 ^ 14,
                2.494 * 10 ^ 14, 1.889 * 10 ^ 14, 1.431 * 10 ^ 14, 1.084 * 10 ^ 14, 8.211 * 10 ^ 13, 6.220 * 10 ^ 13]"

subsection \<open>Part 3: analytic solution\<close>

definition N0 :: real where
  "N0 = 1.00 * 10 ^ 15"

definition lambda_decay :: real where
  \<comment> \<open>\<^verbatim>\<open>2.0982e-06\<close>, per second\<close>
  "lambda_decay = 2.0982 / 10 ^ 6"

definition N_analitik :: ndarray where
  \<comment> \<open>\<^verbatim>\<open>N0 * np.exp(-lambda_decay * waktu)\<close>\<close>
  "N_analitik = nd_mul N0 (np_exp (nd_mul (- lambda_decay) waktu))"

subsection \<open>Part 5: relative error tables (percent)\<close>

definition error_33035 :: ndarray where
  "error_33035 = [0.0000, 1.0027, 1.9953, 2.9780, 3.9508, 4.9139, 5.8673, 6.8112, 7.7456, 8.6706, 9.5864]"

definition error_16518 :: ndarray where
  "error_16518 = [0.0000, 0.4906, 0.9789, 1.4647, 1.9482, 2.4293, 2.9080, 3.3844, 3.8584, 4.3301, 4.7995]"

definition error_6607 :: ndarray where
  "error_6607 = [0.0000, 0.1938, 0.3872, 0.5802, 0.7729, 0.9652, 1.1571, 1.3487, 1.5398, 1.7306, 1.9211]"

definition error_3304 :: ndarray where
  "error_3304 = [0.0000, 0.0965, 0.1929, 0.2892, 0.3854, 0.4815, 0.5775, 0.6735, 0.7693, 0.8651, 0.9607]"

definition error_1652 :: ndarray where
  "error_1652 = [0.0000, 0.0481, 0.0963, 0.1444, 0.1924, 0.2405, 0.2885, 0.3365, 0.3845, 0.4325, 0.4804]"


subsection \<open>The relative-error formula of Part 5\<close>

text \<open>
  The error tables are literals; the script never computes them. Its comment gives the
  formula they come from: \<^verbatim>\<open>Error relatif = |N_numerik - N_analitik| / N_analitik x 100%\<close>.
\<close>

definition rel_error :: "real \<Rightarrow> real \<Rightarrow> real" where
  "rel_error N_numerik N_analitik_t = \<bar>N_numerik - N_analitik_t\<bar> / N_analitik_t * 100"

text \<open>
  Agreement of a literal error \<open>e\<close> with the formula "up to the rounding precision of the
  literal data": the simulation value is printed to 4 significant figures and the error to
  4 decimal places, so some value \<open>n'\<close> that rounds to the printed simulation value must
  give a formula value that rounds to the printed error.
\<close>

definition half_unit_4sf :: "real \<Rightarrow> real" where
  \<comment> \<open>half a unit of the fourth significant decimal figure of \<open>x\<close>\<close>
  "half_unit_4sf x = 10 powr (of_int \<lfloor>log 10 \<bar>x\<bar>\<rfloor> - 3) / 2"

definition agrees_to_rounding :: "real \<Rightarrow> real \<Rightarrow> real \<Rightarrow> bool" where
  "agrees_to_rounding n a e \<longleftrightarrow>
     (\<exists>n'. \<bar>n' - n\<bar> \<le> half_unit_4sf n \<and> \<bar>rel_error n' a - e\<bar> \<le> 0.00005)"

text \<open>
  The time step of each table, in seconds, as the comments and the names of the source
  give it.
\<close>

definition simulation_series :: "(nat \<times> ndarray) list" where
  "simulation_series =
     [(33035, N_dt_33035), (16518, N_dt_16518), (6607, N_dt_6607), (3304, N_dt_3304),
      (1652, N_dt_1652)]"

definition error_series :: "(nat \<times> ndarray) list" where
  "error_series =
     [(33035, error_33035), (16518, error_16518), (6607, error_6607), (3304, error_3304),
      (1652, error_1652)]"

section \<open>The script as a sequence of statements\<close>

text \<open>
  To speak about rebinding and mutation the script is also given statement by statement.
  A statement either binds a name to the value of an expression over the names bound so
  far, or is a call into \<^verbatim>\<open>matplotlib.pyplot\<close> that reads some names and changes none
  (an operand such as \<^verbatim>\<open>N_analitik/1e14\<close> is a fresh array). Reading a name that is not
  bound raises \<^verbatim>\<open>NameError\<close>, here \<open>None\<close>.
\<close>

datatype val = Num real | Arr ndarray

type_synonym env = "string \<Rightarrow> val option"

datatype stmt = Bind string "env \<Rightarrow> val option" | Draw "string list"

fun exec :: "stmt \<Rightarrow> env \<Rightarrow> env option" where
  "exec (Bind x e) s = (case e s of None \<Rightarrow> None | Some v \<Rightarrow> Some (s(x \<mapsto> v)))"
| "exec (Draw xs) s = (if list_all (\<lambda>x. s x \<noteq> None) xs then Some s else None)"

fun run :: "stmt list \<Rightarrow> env \<Rightarrow> env option" where
  "run [] s = Some s"
| "run (c # cs) s = (case exec c s of None \<Rightarrow> None | Some s' \<Rightarrow> run cs s')"

fun binds :: "stmt list \<Rightarrow> string list" where
  "binds [] = []"
| "binds (Bind x e # cs) = x # binds cs"
| "binds (Draw xs # cs) = binds cs"

definition lit :: "val \<Rightarrow> env \<Rightarrow> val option" where
  \<comment> \<open>a literal right-hand side\<close>
  "lit v s = Some v"

definition waktu_hari_rhs :: "env \<Rightarrow> val option" where
  \<comment> \<open>\<^verbatim>\<open>waktu / (24 * 3600)\<close>\<close>
  "waktu_hari_rhs s =
     (case s ''waktu'' of Some (Arr w) \<Rightarrow> Some (Arr (nd_div w (24 * 3600))) | _ \<Rightarrow> None)"

definition N_analitik_rhs :: "env \<Rightarrow> val option" where
  \<comment> \<open>\<^verbatim>\<open>N0 * np.exp(-lambda_decay * waktu)\<close>\<close>
  "N_analitik_rhs s =
     (case (s ''N0'', s ''lambda_decay'', s ''waktu'') of
        (Some (Num n0), Some (Num l), Some (Arr w)) \<Rightarrow> Some (Arr (nd_mul n0 (np_exp (nd_mul (- l) w))))
      | _ \<Rightarrow> None)"

definition script :: "stmt list" where
  "script =
     [Bind ''waktu'' (lit (Arr waktu)),
      Bind ''waktu_hari'' waktu_hari_rhs,
      Bind ''N_dt_33035'' (lit (Arr N_dt_33035)),
      Bind ''N_dt_16518'' (lit (Arr N_dt_16518)),
      Bind ''N_dt_6607'' (lit (Arr N_dt_6607)),
      Bind ''N_dt_3304'' (lit (Arr N_dt_3304)),
      Bind ''N_dt_1652'' (lit (Arr N_dt_1652)),
      Bind ''N0'' (lit (Num (1.00 * 10 ^ 15))),
      Bind ''lambda_decay'' (lit (Num (2.0982 / 10 ^ 6))),
      Bind ''N_analitik'' N_analitik_rhs,
      Draw [],
      Draw [''waktu_hari'', ''N_analitik''],
      Draw [''waktu_hari'', ''N_dt_33035''],
      Draw [''waktu_hari'', ''N_dt_16518''],
      Draw [''waktu_hari'', ''N_dt_6607''],
      Draw [''waktu_hari'', ''N_dt_3304''],
      Draw [''waktu_hari'', ''N_dt_1652''],
      Draw [], Draw [], Draw [], Draw [], Draw [], Draw [],
      Draw [],
      Bind ''error_33035'' (lit (Arr error_33035)),
      Bind ''error_16518'' (lit (Arr error_16518)),
      Bind ''error_6607'' (lit (Arr error_6607)),
      Bind ''error_3304'' (lit (Arr error_3304)),
      Bind ''error_1652'' (lit (Arr error_1652)),
      Draw [''waktu_hari'', ''error_33035''],
      Draw [''waktu_hari'', ''error_16518''],
      Draw [''waktu_hari'', ''error_6607''],
      Draw [''waktu_hari'', ''error_3304''],
      Draw [''waktu_hari'', ''error_1652''],
      Draw [], Draw [], Draw [], Draw [], Draw [], Draw [],
      Draw []]"

section \<open>Binary64 arithmetic\<close>

text \<open>
  The first element of the analytic series and the round trip of the time axis are
  statements about exactness in floating point, so the float64 operations they involve
  are also modelled with their rounding. A finite,
  normal binary64 number is an integer multiple of the unit in the last place of its
  binade; a literal, a product and a quotient are rounded to the nearest such number, ties
  to the even multiple (IEEE 754, the default mode). Overflow and subnormal numbers do not
  occur in this script and are not modelled.
\<close>

definition round_half_even :: "real \<Rightarrow> int" where
  "round_half_even y =
     (let f = \<lfloor>y\<rfloor>; r = y - of_int f
      in if r < 1 / 2 then f else if 1 / 2 < r then f + 1 else if even f then f else f + 1)"

definition ulp64 :: "real \<Rightarrow> real" where
  \<comment> \<open>the spacing of binary64 numbers in the binade of \<open>x\<close>: 52 fraction bits\<close>
  "ulp64 x = 2 powr (of_int \<lfloor>log 2 \<bar>x\<bar>\<rfloor> - 52)"

definition b64 :: "real \<Rightarrow> real" where
  "b64 x = (if x = 0 then 0 else of_int (round_half_even (x / ulp64 x)) * ulp64 x)"

definition f64_div :: "real \<Rightarrow> real \<Rightarrow> real" where
  "f64_div a b = b64 (a / b)"

definition f64_mul :: "real \<Rightarrow> real \<Rightarrow> real" where
  "f64_mul a b = b64 (a * b)"

definition waktu_f64 :: ndarray where
  \<comment> \<open>the float64 array that \<^verbatim>\<open>np.array\<close> builds from the literals of \<open>waktu\<close>\<close>
  "waktu_f64 = map b64 waktu"

definition waktu_hari_f64 :: ndarray where
  \<comment> \<open>\<^verbatim>\<open>waktu / (24 * 3600)\<close> in float64\<close>
  "waktu_hari_f64 = map (\<lambda>t. f64_div t (24 * 3600)) waktu_f64"

definition N_analitik_f64 :: "(real \<Rightarrow> real) \<Rightarrow> ndarray" where
  \<comment> \<open>\<^verbatim>\<open>N0 * np.exp(-lambda_decay * waktu)\<close> in float64; \<open>fexp\<close> is the exponential of the
      platform's mathematical library, which numpy calls and which is not part of the script\<close>
  "N_analitik_f64 fexp =
     map (\<lambda>t. f64_mul (b64 N0) (fexp (f64_mul (- b64 lambda_decay) t))) waktu_f64"

section \<open>Index ranges\<close>

lemma lt11_cases:
  "i < 11 \<longleftrightarrow> i = 0 \<or> i = 1 \<or> i = 2 \<or> i = 3 \<or> i = 4 \<or> i = 5 \<or> i = 6 \<or> i = 7 \<or> i = 8 \<or> i = 9 \<or> i = (10::nat)"
  by (simp add: numeral_eq_Suc less_Suc_eq disj_ac)

lemma all_lt11:
  "(\<forall>i<11. P (i::nat)) \<longleftrightarrow> P 0 \<and> P 1 \<and> P 2 \<and> P 3 \<and> P 4 \<and> P 5 \<and> P 6 \<and> P 7 \<and> P 8 \<and> P 9 \<and> P 10"
  unfolding lt11_cases by blast

lemma lt10_cases:
  "i < 10 \<longleftrightarrow> i = 0 \<or> i = 1 \<or> i = 2 \<or> i = 3 \<or> i = 4 \<or> i = 5 \<or> i = 6 \<or> i = 7 \<or> i = 8 \<or> i = (9::nat)"
  by (simp add: numeral_eq_Suc less_Suc_eq disj_ac)

lemma all_lt10:
  "(\<forall>i<10. P (i::nat)) \<longleftrightarrow> P 0 \<and> P 1 \<and> P 2 \<and> P 3 \<and> P 4 \<and> P 5 \<and> P 6 \<and> P 7 \<and> P 8 \<and> P 9"
  unfolding lt10_cases by blast

lemma all_pos_lt11:
  "(\<forall>i. 0 < i \<and> i < 11 \<longrightarrow> P (i::nat)) \<longleftrightarrow> P 1 \<and> P 2 \<and> P 3 \<and> P 4 \<and> P 5 \<and> P 6 \<and> P 7 \<and> P 8 \<and> P 9 \<and> P 10"
proof -
  have "(\<forall>i. 0 < i \<and> i < 11 \<longrightarrow> P i) \<longleftrightarrow> (\<forall>i<11. 0 < i \<longrightarrow> P i)" by blast
  also have "\<dots> \<longleftrightarrow> P 1 \<and> P 2 \<and> P 3 \<and> P 4 \<and> P 5 \<and> P 6 \<and> P 7 \<and> P 8 \<and> P 9 \<and> P 10"
    unfolding all_lt11 by simp
  finally show ?thesis .
qed

section \<open>The literal tables\<close>

text \<open>
  C4. Each of the five simulation series is monotonically non-increasing over the time
  index: for every index \<open>i\<close> from 0 to 9 the value at \<open>i\<close> is at least the value at \<open>i + 1\<close>.
\<close>

theorem simulation_series_nonincreasing:
  "\<forall>i<10. N_dt_33035 ! i \<ge> N_dt_33035 ! (i + 1) \<and> N_dt_16518 ! i \<ge> N_dt_16518 ! (i + 1) \<and>
     N_dt_6607 ! i \<ge> N_dt_6607 ! (i + 1) \<and> N_dt_3304 ! i \<ge> N_dt_3304 ! (i + 1) \<and>
     N_dt_1652 ! i \<ge> N_dt_1652 ! (i + 1)"
  unfolding all_lt10
  by (simp add: N_dt_33035_def N_dt_16518_def N_dt_6607_def N_dt_3304_def N_dt_1652_def)

theorem simulation_series_nonincreasing_witness:
  "(9::nat) < 10 \<and> N_dt_33035 ! 9 \<ge> N_dt_33035 ! 10 \<and> N_dt_1652 ! 9 \<ge> N_dt_1652 ! 10"
proof -
  have h: "(9::nat) < 10" by simp
  from simulation_series_nonincreasing [rule_format, OF h] h show ?thesis by simp
qed

text \<open>
  C7. The first element (index 0, time 0) of each of the five relative-error series is 0.
\<close>

theorem error_series_start_at_zero:
  "error_33035 ! 0 = 0 \<and> error_16518 ! 0 = 0 \<and> error_6607 ! 0 = 0 \<and> error_3304 ! 0 = 0 \<and>
   error_1652 ! 0 = 0"
  by (simp add: error_33035_def error_16518_def error_6607_def error_3304_def error_1652_def)

text \<open>
  C10. Each of the five relative-error series is strictly increasing over the time index
  (for every index \<open>i\<close> from 0 to 9 the value at \<open>i\<close> is below the value at \<open>i + 1\<close>), and
  so every error value at an index above 0 is strictly positive.
\<close>

theorem error_series_strictly_increasing:
  "(\<forall>i<10. error_33035 ! i < error_33035 ! (i + 1) \<and> error_16518 ! i < error_16518 ! (i + 1) \<and>
      error_6607 ! i < error_6607 ! (i + 1) \<and> error_3304 ! i < error_3304 ! (i + 1) \<and>
      error_1652 ! i < error_1652 ! (i + 1)) \<and>
   (\<forall>i. 0 < i \<and> i < 11 \<longrightarrow> 0 < error_33035 ! i \<and> 0 < error_16518 ! i \<and> 0 < error_6607 ! i \<and>
      0 < error_3304 ! i \<and> 0 < error_1652 ! i)"
  unfolding all_lt10 all_pos_lt11
  by (simp add: error_33035_def error_16518_def error_6607_def error_3304_def error_1652_def)

theorem error_series_strictly_increasing_witness:
  "(4::nat) < 10 \<and> error_6607 ! 4 < error_6607 ! 5 \<and> (0::nat) < 5 \<and> (5::nat) < 11 \<and> 0 < error_6607 ! 5"
proof -
  have h: "(4::nat) < 10" and k: "(0::nat) < 5 \<and> (5::nat) < 11" by simp_all
  from error_series_strictly_increasing
  have a: "\<forall>i<10. error_6607 ! i < error_6607 ! (i + 1)"
    and b: "\<forall>i. 0 < i \<and> i < 11 \<longrightarrow> 0 < error_6607 ! i" by blast+
  from a [rule_format, OF h] b [rule_format, OF k] h k show ?thesis by simp
qed

text \<open>
  C1. At every index \<open>i > 0\<close>, for every pair of error series where one has the larger
  time step, the series with the larger time step has the larger or equal relative error:
  \<open>error_33035[i] \<ge> error_16518[i] \<ge> error_6607[i] \<ge> error_3304[i] \<ge> error_1652[i]\<close>. At the
  last index, \<open>error_33035[10] = 9.5864\<close> and \<open>error_1652[10] = 0.4804\<close>.
\<close>

theorem error_ordered_by_time_step:
  "(\<forall>(dt_large, e_large) \<in> set error_series. \<forall>(dt_small, e_small) \<in> set error_series.
      dt_large > dt_small \<longrightarrow> (\<forall>i. 0 < i \<and> i < 11 \<longrightarrow> e_large ! i \<ge> e_small ! i)) \<and>
   (\<forall>i. 0 < i \<and> i < 11 \<longrightarrow>
      error_33035 ! i \<ge> error_16518 ! i \<and> error_16518 ! i \<ge> error_6607 ! i \<and>
      error_6607 ! i \<ge> error_3304 ! i \<and> error_3304 ! i \<ge> error_1652 ! i) \<and>
   error_33035 ! 10 = 9.5864 \<and> error_1652 ! 10 = 0.4804"
  unfolding all_pos_lt11
  by (simp add: error_series_def error_33035_def error_16518_def error_6607_def error_3304_def
      error_1652_def)

theorem error_ordered_by_time_step_witness:
  "(0::nat) < 10 \<and> (10::nat) < 11 \<and> error_33035 ! 10 \<ge> error_16518 ! 10 \<and>
   error_3304 ! 10 \<ge> error_1652 ! 10"
proof -
  have h: "(0::nat) < 10 \<and> (10::nat) < 11" by simp
  from error_ordered_by_time_step
  have "\<forall>i. 0 < i \<and> i < 11 \<longrightarrow>
      error_33035 ! i \<ge> error_16518 ! i \<and> error_16518 ! i \<ge> error_6607 ! i \<and>
      error_6607 ! i \<ge> error_3304 ! i \<and> error_3304 ! i \<ge> error_1652 ! i" by blast
  from this [rule_format, OF h] h show ?thesis by simp
qed

section \<open>The time axis and the analytic series\<close>

lemma length_N_analitik: "length N_analitik = length waktu"
  by (simp add: N_analitik_def nd_mul_def np_exp_def)

lemma nth_N_analitik:
  "i < length waktu \<Longrightarrow> N_analitik ! i = N0 * exp (- lambda_decay * waktu ! i)"
  by (simp add: N_analitik_def nd_mul_def np_exp_def)

lemma length_waktu: "length waktu = 11"
  by (simp add: waktu_def)

text \<open>
  C2. The analytic series is computed element-wise from the time samples as
  \<open>N0 * exp (- lambda * t)\<close> with \<open>N0 = 1.0e15\<close> and \<open>lambda = 2.0982e-6\<close>: for every index
  \<open>i\<close> from 0 to 10, \<open>N_analitik[i] = 1.0e15 * exp (- 2.0982e-6 * waktu[i])\<close>, and the series
  has 11 elements.
\<close>

theorem N_analitik_elementwise:
  "length N_analitik = 11 \<and> N0 = 1.0 * 10 ^ 15 \<and> lambda_decay = 2.0982 / 10 ^ 6 \<and>
   (\<forall>i<11. N_analitik ! i = 1.0 * 10 ^ 15 * exp (- (2.0982 / 10 ^ 6) * waktu ! i))"
  using nth_N_analitik
  by (simp add: length_N_analitik length_waktu N0_def lambda_decay_def)

theorem N_analitik_elementwise_witness:
  "(10::nat) < 11 \<and> N_analitik ! 10 = 1.0 * 10 ^ 15 * exp (- (2.0982 / 10 ^ 6) * 1321401.60)"
proof -
  have h: "(10::nat) < 11" by simp
  from N_analitik_elementwise
  have "\<forall>i<11. N_analitik ! i = 1.0 * 10 ^ 15 * exp (- (2.0982 / 10 ^ 6) * waktu ! i)" by blast
  from this [rule_format, OF h] h show ?thesis by (simp add: waktu_def)
qed

section \<open>The two exactness statements\<close>

lemma ulp64_eq:
  assumes "2 ^ k \<le> \<bar>x\<bar>" "\<bar>x\<bar> < 2 ^ (k + 1)" "k \<le> 52"
  shows "ulp64 x = 1 / 2 ^ (52 - k)"
proof -
  have x: "0 < \<bar>x\<bar>" using assms(1) by (rule less_le_trans [rotated]) simp
  have l: "log 2 ((2::real) ^ m) = real m" for m
    by (simp add: log_nat_power)
  have fl: "\<lfloor>log 2 \<bar>x\<bar>\<rfloor> = int k"
  proof (rule floor_unique)
    have "log 2 (2 ^ k) \<le> log 2 \<bar>x\<bar>"
      using assms(1) x by (subst log_le_cancel_iff) simp_all
    then show "of_int (int k) \<le> log 2 \<bar>x\<bar>" unfolding l by simp
    have "log 2 \<bar>x\<bar> < log 2 (2 ^ (k + 1))"
      using assms(2) x by (subst log_less_cancel_iff) simp_all
    then have "log 2 \<bar>x\<bar> < real (k + 1)" unfolding l .
    then show "log 2 \<bar>x\<bar> < of_int (int k) + 1" by simp
  qed
  have m: "real_of_int (int k) - 52 = - real (52 - k)" using assms(3) by simp
  have "ulp64 x = 2 powr (- real (52 - k))" unfolding ulp64_def fl m ..
  also have "\<dots> = 1 / 2 powr real (52 - k)" by (rule powr_minus_divide)
  also have "2 powr real (52 - k) = (2::real) ^ (52 - k)" by (rule powr_realpow) simp
  finally show ?thesis .
qed

lemma b64_eval:
  assumes "2 ^ k \<le> \<bar>x\<bar>" "\<bar>x\<bar> < 2 ^ (k + 1)" "k \<le> 52"
  shows "b64 x = of_int (round_half_even (x * 2 ^ (52 - k))) / 2 ^ (52 - k)"
proof -
  have "0 < \<bar>x\<bar>" using assms(1) by (rule less_le_trans [rotated]) simp
  then have "x \<noteq> 0" by simp
  then show ?thesis
    unfolding b64_def ulp64_eq [OF assms] by simp
qed

lemma round_half_even_near:
  assumes "\<bar>y - of_int n\<bar> < 1 / 2"
  shows "round_half_even y = n"
proof (cases "of_int n \<le> y")
  case True
  with assms have "\<lfloor>y\<rfloor> = n" by (intro floor_unique) linarith+
  with assms True show ?thesis by (simp add: round_half_even_def Let_def)
next
  case False
  have c: "real_of_int (n - 1) = real_of_int n - 1" by simp
  from assms False have f: "\<lfloor>y\<rfloor> = n - 1"
    unfolding abs_less_iff by (intro floor_unique; unfold c; linarith)
  have "1 / 2 < y - of_int (n - 1)" using assms False unfolding abs_less_iff c by linarith
  then show ?thesis unfolding round_half_even_def Let_def f by simp
qed

lemma b64_near:
  assumes "2 ^ (52 - m) \<le> \<bar>x\<bar>" "\<bar>x\<bar> < 2 ^ (53 - m)" "m \<le> 52"
    and "y * 2 ^ m = of_int n" and "\<bar>x * 2 ^ m - y * 2 ^ m\<bar> < 1 / 2"
  shows "b64 x = y"
proof -
  have k: "52 - m \<le> 52" "52 - (52 - m) = m" "53 - m = 52 - m + 1" using assms(3) by simp_all
  have "b64 x = of_int (round_half_even (x * 2 ^ m)) / 2 ^ m"
    using b64_eval [of "52 - m" x] assms(1,2) unfolding k by simp
  also have "round_half_even (x * 2 ^ m) = n"
    using assms(5) unfolding assms(4) by (rule round_half_even_near)
  also have "of_int n / 2 ^ m = y" using assms(4) [symmetric] by simp
  finally show ?thesis .
qed

lemma b64_zero: "b64 0 = 0"
  by (simp add: b64_def)

lemma b64_one: "b64 1 = 1"
  by (rule b64_near [where m = 52 and n = "2 ^ 52"]) simp_all

lemma b64_N0: "b64 N0 = 10 ^ 15"
  unfolding N0_def by (rule b64_near [where m = 3 and n = 8000000000000000]) simp_all

lemma b64_86400: "b64 (24 * 3600) = 86400"
  by (rule b64_near [where m = 36 and n = 5937362789990400]) simp_all

lemma round_trip_0: "f64_mul (f64_div (b64 0.00) (24 * 3600)) 86400 = b64 0.00"
  by (simp add: f64_mul_def f64_div_def b64_def)

lemma round_trip_1:
  "f64_mul (f64_div (b64 132140.16) (24 * 3600)) 86400 = b64 132140.16"
proof -
  have w: "b64 132140.16 = 4540301325505659 / 2 ^ 35"
    by (rule b64_near [where m = 35 and n = 4540301325505659]) simp_all
  have d: "b64 (4540301325505659 / 2 ^ 35 / (24 * 3600)) = 6887805270100437 / 2 ^ 52"
    by (rule b64_near [where m = 52 and n = 6887805270100437]) simp_all
  have r: "b64 (6887805270100437 / 2 ^ 52 * 86400) = 4540301325505659 / 2 ^ 35"
    by (rule b64_near [where m = 35 and n = 4540301325505659]) simp_all
  show ?thesis unfolding f64_mul_def f64_div_def w d r ..
qed

lemma round_trip_2:
  "f64_mul (f64_div (b64 264280.32) (24 * 3600)) 86400 = b64 264280.32"
proof -
  have w: "b64 264280.32 = 4540301325505659 / 2 ^ 34"
    by (rule b64_near [where m = 34 and n = 4540301325505659]) simp_all
  have d: "b64 (4540301325505659 / 2 ^ 34 / (24 * 3600)) = 6887805270100437 / 2 ^ 51"
    by (rule b64_near [where m = 51 and n = 6887805270100437]) simp_all
  have r: "b64 (6887805270100437 / 2 ^ 51 * 86400) = 4540301325505659 / 2 ^ 34"
    by (rule b64_near [where m = 34 and n = 4540301325505659]) simp_all
  show ?thesis unfolding f64_mul_def f64_div_def w d r ..
qed

lemma round_trip_3:
  "f64_mul (f64_div (b64 396420.48) (24 * 3600)) 86400 = b64 396420.48"
proof -
  have w: "b64 396420.48 = 6810451988258488 / 2 ^ 34"
    by (rule b64_near [where m = 34 and n = 6810451988258488]) simp_all
  have d: "b64 (6810451988258488 / 2 ^ 34 / (24 * 3600)) = 5165853952575327 / 2 ^ 50"
    by (rule b64_near [where m = 50 and n = 5165853952575327]) simp_all
  have r: "b64 (5165853952575327 / 2 ^ 50 * 86400) = 6810451988258488 / 2 ^ 34"
    by (rule b64_near [where m = 34 and n = 6810451988258488]) simp_all
  show ?thesis unfolding f64_mul_def f64_div_def w d r ..
qed

lemma round_trip_4:
  "f64_mul (f64_div (b64 528560.64) (24 * 3600)) 86400 = b64 528560.64"
proof -
  have w: "b64 528560.64 = 4540301325505659 / 2 ^ 33"
    by (rule b64_near [where m = 33 and n = 4540301325505659]) simp_all
  have d: "b64 (4540301325505659 / 2 ^ 33 / (24 * 3600)) = 6887805270100437 / 2 ^ 50"
    by (rule b64_near [where m = 50 and n = 6887805270100437]) simp_all
  have r: "b64 (6887805270100437 / 2 ^ 50 * 86400) = 4540301325505659 / 2 ^ 33"
    by (rule b64_near [where m = 33 and n = 4540301325505659]) simp_all
  show ?thesis unfolding f64_mul_def f64_div_def w d r ..
qed

lemma round_trip_5:
  "f64_mul (f64_div (b64 660700.80) (24 * 3600)) 86400 = b64 660700.80"
proof -
  have w: "b64 660700.80 = 5675376656882074 / 2 ^ 33"
    by (rule b64_near [where m = 33 and n = 5675376656882074]) simp_all
  have d: "b64 (5675376656882074 / 2 ^ 33 / (24 * 3600)) = 8609756587625546 / 2 ^ 50"
    by (rule b64_near [where m = 50 and n = 8609756587625546]) simp_all
  have r: "b64 (8609756587625546 / 2 ^ 50 * 86400) = 5675376656882074 / 2 ^ 33"
    by (rule b64_near [where m = 33 and n = 5675376656882074]) simp_all
  show ?thesis unfolding f64_mul_def f64_div_def w d r ..
qed

lemma round_trip_6:
  "f64_mul (f64_div (b64 792840.96) (24 * 3600)) 86400 = b64 792840.96"
proof -
  have w: "b64 792840.96 = 6810451988258488 / 2 ^ 33"
    by (rule b64_near [where m = 33 and n = 6810451988258488]) simp_all
  have d: "b64 (6810451988258488 / 2 ^ 33 / (24 * 3600)) = 5165853952575327 / 2 ^ 49"
    by (rule b64_near [where m = 49 and n = 5165853952575327]) simp_all
  have r: "b64 (5165853952575327 / 2 ^ 49 * 86400) = 6810451988258488 / 2 ^ 33"
    by (rule b64_near [where m = 33 and n = 6810451988258488]) simp_all
  show ?thesis unfolding f64_mul_def f64_div_def w d r ..
qed

lemma round_trip_7:
  "f64_mul (f64_div (b64 924981.12) (24 * 3600)) 86400 = b64 924981.12"
proof -
  have w: "b64 924981.12 = 7945527319634903 / 2 ^ 33"
    by (rule b64_near [where m = 33 and n = 7945527319634903]) simp_all
  have d: "b64 (7945527319634903 / 2 ^ 33 / (24 * 3600)) = 6026829611337882 / 2 ^ 49"
    by (rule b64_near [where m = 49 and n = 6026829611337882]) simp_all
  have r: "b64 (6026829611337882 / 2 ^ 49 * 86400) = 7945527319634903 / 2 ^ 33"
    by (rule b64_near [where m = 33 and n = 7945527319634903]) simp_all
  show ?thesis unfolding f64_mul_def f64_div_def w d r ..
qed

lemma round_trip_8:
  "f64_mul (f64_div (b64 1057121.28) (24 * 3600)) 86400 = b64 1057121.28"
proof -
  have w: "b64 1057121.28 = 4540301325505659 / 2 ^ 32"
    by (rule b64_near [where m = 32 and n = 4540301325505659]) simp_all
  have d: "b64 (4540301325505659 / 2 ^ 32 / (24 * 3600)) = 6887805270100437 / 2 ^ 49"
    by (rule b64_near [where m = 49 and n = 6887805270100437]) simp_all
  have r: "b64 (6887805270100437 / 2 ^ 49 * 86400) = 4540301325505659 / 2 ^ 32"
    by (rule b64_near [where m = 32 and n = 4540301325505659]) simp_all
  show ?thesis unfolding f64_mul_def f64_div_def w d r ..
qed

lemma round_trip_9:
  "f64_mul (f64_div (b64 1189261.44) (24 * 3600)) 86400 = b64 1189261.44"
proof -
  have w: "b64 1189261.44 = 5107838991193866 / 2 ^ 32"
    by (rule b64_near [where m = 32 and n = 5107838991193866]) simp_all
  have d: "b64 (5107838991193866 / 2 ^ 32 / (24 * 3600)) = 7748780928862991 / 2 ^ 49"
    by (rule b64_near [where m = 49 and n = 7748780928862991]) simp_all
  have r: "b64 (7748780928862991 / 2 ^ 49 * 86400) = 5107838991193866 / 2 ^ 32"
    by (rule b64_near [where m = 32 and n = 5107838991193866]) simp_all
  show ?thesis unfolding f64_mul_def f64_div_def w d r ..
qed

lemma round_trip_10:
  "f64_mul (f64_div (b64 1321401.60) (24 * 3600)) 86400 = b64 1321401.60"
proof -
  have w: "b64 1321401.60 = 5675376656882074 / 2 ^ 32"
    by (rule b64_near [where m = 32 and n = 5675376656882074]) simp_all
  have d: "b64 (5675376656882074 / 2 ^ 32 / (24 * 3600)) = 8609756587625546 / 2 ^ 49"
    by (rule b64_near [where m = 49 and n = 8609756587625546]) simp_all
  have r: "b64 (8609756587625546 / 2 ^ 49 * 86400) = 5675376656882074 / 2 ^ 32"
    by (rule b64_near [where m = 32 and n = 5675376656882074]) simp_all
  show ?thesis unfolding f64_mul_def f64_div_def w d r ..
qed

lemma waktu_hari_f64_round_trip:
  "map (\<lambda>d. f64_mul d 86400) waktu_hari_f64 = waktu_f64"
  unfolding waktu_hari_f64_def waktu_f64_def waktu_def list.map
  by (simp only: round_trip_0 round_trip_1 round_trip_2 round_trip_3 round_trip_4 round_trip_5 round_trip_6 round_trip_7 round_trip_8 round_trip_9 round_trip_10)

lemma N_analitik_f64_first:
  assumes "fexp 0 = 1"
  shows "N_analitik_f64 fexp ! 0 = 10 ^ 15"
proof -
  have "waktu_f64 ! 0 = 0" by (simp add: waktu_f64_def waktu_def b64_zero)
  moreover have "0 < length waktu_f64" by (simp add: waktu_f64_def waktu_def)
  ultimately have "N_analitik_f64 fexp ! 0 = f64_mul (b64 N0) (fexp (f64_mul (- b64 lambda_decay) 0))"
    by (simp add: N_analitik_f64_def)
  also have "\<dots> = b64 (10 ^ 15)"
    by (simp add: f64_mul_def b64_zero assms b64_N0)
  also have "\<dots> = 10 ^ 15" using b64_N0 by (simp add: N0_def)
  finally show ?thesis .
qed

text \<open>
  C6. At the first time sample (\<open>t = 0\<close>) the analytic series equals \<open>N0 = 1.0e15\<close>
  exactly: in the real numbers, and in binary64 with every rounding of the expression,
  for any library exponential that returns 1 at 0.
\<close>

theorem N_analitik_at_zero:
  "waktu ! 0 = 0 \<and> N_analitik ! 0 = N0 \<and> N_analitik ! 0 = 1.0 * 10 ^ 15 \<and>
   (\<forall>fexp. fexp 0 = 1 \<longrightarrow> N_analitik_f64 fexp ! 0 = 1.0 * 10 ^ 15)"
proof -
  have "waktu ! 0 = 0 \<and> N_analitik ! 0 = N0 \<and> N_analitik ! 0 = 1.0 * 10 ^ 15"
    by (simp add: nth_N_analitik length_waktu) (simp add: waktu_def N0_def)
  moreover have "\<forall>fexp. fexp 0 = 1 \<longrightarrow> N_analitik_f64 fexp ! 0 = 1.0 * 10 ^ 15"
    using N_analitik_f64_first by simp
  ultimately show ?thesis by blast
qed

theorem N_analitik_at_zero_witness:
  "b64 (exp 0) = 1 \<and> N_analitik_f64 (\<lambda>x. b64 (exp x)) ! 0 = 1.0 * 10 ^ 15"
proof -
  have h: "b64 (exp 0) = 1" by (simp add: b64_one)
  from N_analitik_at_zero
  have "\<forall>fexp. fexp 0 = 1 \<longrightarrow> N_analitik_f64 fexp ! 0 = 1.0 * 10 ^ 15" by blast
  from this [rule_format, of "\<lambda>x. b64 (exp x)", OF h] h show ?thesis by blast
qed

text \<open>
  C8. Dividing the time samples by 86400 (= 24 * 3600) to get days and multiplying back
  by 86400 reproduces the samples in seconds: for every index \<open>i\<close>,
  \<open>waktu_hari[i] * 86400 = waktu[i]\<close>. This holds in the real numbers, and in binary64,
  with the division and the multiplication each rounded, it holds exactly at all eleven
  samples.
\<close>

theorem waktu_hari_round_trip:
  "24 * 3600 = (86400::real) \<and> length waktu_hari = 11 \<and>
   (\<forall>i<11. waktu_hari ! i * 86400 = waktu ! i) \<and>
   map (\<lambda>d. f64_mul d 86400) waktu_hari_f64 = waktu_f64"
  using waktu_hari_f64_round_trip
  by (simp add: waktu_hari_def nd_div_def length_waktu)

theorem waktu_hari_round_trip_witness:
  "(1::nat) < 11 \<and> waktu_hari ! 1 * 86400 = 132140.16"
proof -
  have h: "(1::nat) < 11" by simp
  from waktu_hari_round_trip have "\<forall>i<11. waktu_hari ! i * 86400 = waktu ! i" by blast
  from this [rule_format, OF h] h show ?thesis by (simp add: waktu_def)
qed

section \<open>Running the script\<close>

lemma run_unbound: "run cs s = Some s' \<Longrightarrow> x \<notin> set (binds cs) \<Longrightarrow> s' x = s x"
proof (induction cs arbitrary: s)
  case Nil
  then show ?case by simp
next
  case (Cons c cs)
  then show ?case by (cases c) (auto split: option.splits if_splits)
qed

lemma run_dom: "run cs s = Some s' \<Longrightarrow> dom s' = dom s \<union> set (binds cs)"
proof (induction cs arbitrary: s)
  case Nil
  then show ?case by simp
next
  case (Cons c cs)
  then show ?case by (cases c) (auto split: option.splits if_splits)
qed

lemma binds_append: "binds (cs @ ds) = binds cs @ binds ds"
  by (induction cs rule: binds.induct) auto

lemma binds_script:
  "binds script =
     [''waktu'', ''waktu_hari'', ''N_dt_33035'', ''N_dt_16518'', ''N_dt_6607'', ''N_dt_3304'',
      ''N_dt_1652'', ''N0'', ''lambda_decay'', ''N_analitik'', ''error_33035'', ''error_16518'',
      ''error_6607'', ''error_3304'', ''error_1652'']"
  by (simp add: script_def)

lemma distinct_binds_script: "distinct (binds script)"
  unfolding binds_script by simp

lemma bound_stays:
  assumes "distinct (binds (pre @ post))"
    and "run pre Map.empty = Some s1" and "run post s1 = Some s2" and "s1 x = Some v"
  shows "s2 x = Some v"
proof -
  have "x \<in> set (binds pre)"
    using run_dom [OF assms(2)] assms(4) by auto
  with assms(1) have "x \<notin> set (binds post)"
    by (auto simp: binds_append)
  from run_unbound [OF assms(3) this] assms(4) show ?thesis by simp
qed

lemma run_script:
  "run script Map.empty =
     Some [''waktu'' \<mapsto> Arr waktu, ''waktu_hari'' \<mapsto> Arr waktu_hari,
       ''N_dt_33035'' \<mapsto> Arr N_dt_33035, ''N_dt_16518'' \<mapsto> Arr N_dt_16518,
       ''N_dt_6607'' \<mapsto> Arr N_dt_6607, ''N_dt_3304'' \<mapsto> Arr N_dt_3304,
       ''N_dt_1652'' \<mapsto> Arr N_dt_1652, ''N0'' \<mapsto> Num N0, ''lambda_decay'' \<mapsto> Num lambda_decay,
       ''N_analitik'' \<mapsto> Arr N_analitik, ''error_33035'' \<mapsto> Arr error_33035,
       ''error_16518'' \<mapsto> Arr error_16518, ''error_6607'' \<mapsto> Arr error_6607,
       ''error_3304'' \<mapsto> Arr error_3304, ''error_1652'' \<mapsto> Arr error_1652]"
  by (simp add: script_def lit_def waktu_hari_rhs_def N_analitik_rhs_def
      waktu_hari_def N_analitik_def N0_def lambda_decay_def)

lemma series_lengths:
  "length waktu = 11" "length waktu_hari = 11" "length N_analitik = 11"
  "length N_dt_33035 = 11" "length N_dt_16518 = 11" "length N_dt_6607 = 11"
  "length N_dt_3304 = 11" "length N_dt_1652 = 11"
  "length error_33035 = 11" "length error_16518 = 11" "length error_6607 = 11"
  "length error_3304 = 11" "length error_1652 = 11"
  by (simp_all add: waktu_def waktu_hari_def nd_div_def N_analitik_def nd_mul_def np_exp_def
      N_dt_33035_def N_dt_16518_def N_dt_6607_def N_dt_3304_def N_dt_1652_def
      error_33035_def error_16518_def error_6607_def error_3304_def error_1652_def)

text \<open>
  C3. The time series, the five simulation series, the analytic series and the five error
  series all have length 11, one value for each time sample; the script runs to its end
  binding each name to its series, and no name is rebound or changed after it is bound:
  whatever value a name has after any prefix of the script, it still has at the end.
\<close>

theorem series_aligned_and_never_rebound:
  "(\<forall>a \<in> {waktu, N_dt_33035, N_dt_16518, N_dt_6607, N_dt_3304, N_dt_1652, N_analitik,
      error_33035, error_16518, error_6607, error_3304, error_1652}.
      length a = 11 \<and> length a = length waktu) \<and>
   (\<exists>s. run script Map.empty = Some s \<and>
      s ''waktu'' = Some (Arr waktu) \<and> s ''N_analitik'' = Some (Arr N_analitik) \<and>
      s ''N_dt_33035'' = Some (Arr N_dt_33035) \<and> s ''N_dt_16518'' = Some (Arr N_dt_16518) \<and>
      s ''N_dt_6607'' = Some (Arr N_dt_6607) \<and> s ''N_dt_3304'' = Some (Arr N_dt_3304) \<and>
      s ''N_dt_1652'' = Some (Arr N_dt_1652) \<and>
      s ''error_33035'' = Some (Arr error_33035) \<and> s ''error_16518'' = Some (Arr error_16518) \<and>
      s ''error_6607'' = Some (Arr error_6607) \<and> s ''error_3304'' = Some (Arr error_3304) \<and>
      s ''error_1652'' = Some (Arr error_1652)) \<and>
   distinct (binds script) \<and>
   (\<forall>pre post s1 s2 x v.
      script = pre @ post \<and> run pre Map.empty = Some s1 \<and> run post s1 = Some s2 \<and>
      s1 x = Some v \<longrightarrow> s2 x = Some v)"
proof (intro conjI)
  show "\<forall>a \<in> {waktu, N_dt_33035, N_dt_16518, N_dt_6607, N_dt_3304, N_dt_1652, N_analitik,
      error_33035, error_16518, error_6607, error_3304, error_1652}.
      length a = 11 \<and> length a = length waktu"
    by (simp add: series_lengths)
  show "distinct (binds script)" by (rule distinct_binds_script)
  show "\<forall>pre post s1 s2 x v.
      script = pre @ post \<and> run pre Map.empty = Some s1 \<and> run post s1 = Some s2 \<and>
      s1 x = Some v \<longrightarrow> s2 x = Some v"
  proof (intro allI impI, elim conjE)
    fix pre post s1 s2 x v
    assume sp: "script = pre @ post" and r: "run pre Map.empty = Some s1" "run post s1 = Some s2"
      and v: "s1 x = Some v"
    have "distinct (binds (pre @ post))" using distinct_binds_script sp by simp
    from bound_stays [OF this r v] show "s2 x = Some v" .
  qed
  show "\<exists>s. run script Map.empty = Some s \<and>
      s ''waktu'' = Some (Arr waktu) \<and> s ''N_analitik'' = Some (Arr N_analitik) \<and>
      s ''N_dt_33035'' = Some (Arr N_dt_33035) \<and> s ''N_dt_16518'' = Some (Arr N_dt_16518) \<and>
      s ''N_dt_6607'' = Some (Arr N_dt_6607) \<and> s ''N_dt_3304'' = Some (Arr N_dt_3304) \<and>
      s ''N_dt_1652'' = Some (Arr N_dt_1652) \<and>
      s ''error_33035'' = Some (Arr error_33035) \<and> s ''error_16518'' = Some (Arr error_16518) \<and>
      s ''error_6607'' = Some (Arr error_6607) \<and> s ''error_3304'' = Some (Arr error_3304) \<and>
      s ''error_1652'' = Some (Arr error_1652)"
    unfolding run_script by simp
qed

theorem series_aligned_and_never_rebound_witness:
  "\<exists>s2. run (tl script) [''waktu'' \<mapsto> Arr waktu] = Some s2 \<and> s2 ''waktu'' = Some (Arr waktu)"
proof -
  have sp: "script = [hd script] @ tl script" by (simp add: script_def)
  have r1: "run [hd script] Map.empty = Some [''waktu'' \<mapsto> Arr waktu]"
    by (simp add: script_def lit_def)
  have "run ([hd script] @ tl script) Map.empty \<noteq> None"
    using run_script sp by simp
  then obtain s2 where r2: "run (tl script) [''waktu'' \<mapsto> Arr waktu] = Some s2"
    using r1 by (auto split: option.splits)
  have v: "[''waktu'' \<mapsto> Arr waktu] ''waktu'' = Some (Arr waktu)" by simp
  from series_aligned_and_never_rebound
  have "\<forall>pre post s1 s2 x v.
      script = pre @ post \<and> run pre Map.empty = Some s1 \<and> run post s1 = Some s2 \<and>
      s1 x = Some v \<longrightarrow> s2 x = Some v" by blast
  from this [rule_format, OF conjI [OF sp conjI [OF r1 conjI [OF r2 v]]]] r2
  show ?thesis by blast
qed

section \<open>Rational bounds for the analytic series\<close>

text \<open>
  The time samples are the multiples \<open>i * 132140.16\<close>, so
  \<open>N_analitik ! i = N0 * exp (- 0.277256483712) ^ i\<close>, where
  \<open>0.277256483712 = lambda_decay * 132140.16\<close>. A Taylor polynomial with remainder
  encloses the one exponential, and powers of the enclosure bound each element.
\<close>

lemma exp_neg_Taylor:
  fixes x :: real
  assumes x0: "0 \<le> x" and x1: "x \<le> 1"
  shows "\<bar>exp (- x) - (\<Sum>m<n. (- x) ^ m / fact m)\<bar> \<le> 3 * x ^ n / fact n"
proof -
  obtain t where t: "\<bar>t\<bar> \<le> \<bar>- x\<bar>"
    and e: "exp (- x) = (\<Sum>m<n. (- x) ^ m / fact m) + (exp t / fact n) * (- x) ^ n"
    using Maclaurin_exp_le [of "- x" n] by blast
  have "t \<le> 1" using t x0 x1 by linarith
  then have "exp t \<le> exp 1" by simp
  also have "\<dots> \<le> 3" by (rule exp_le)
  finally have et: "exp t \<le> 3" .
  have "\<bar>exp (- x) - (\<Sum>m<n. (- x) ^ m / fact m)\<bar> = \<bar>(exp t / fact n) * (- x) ^ n\<bar>"
    using e by simp
  also have "\<dots> = exp t * x ^ n / fact n"
    using x0 by (simp add: abs_mult power_abs)
  also have "\<dots> \<le> 3 * x ^ n / fact n"
    using et x0 by (intro divide_right_mono mult_right_mono) simp_all
  finally show ?thesis .
qed

lemma sum_lt9:
  "(\<Sum>m<9. f m) = f 0 + f 1 + f 2 + f 3 + f 4 + f 5 + f 6 + f 7 + f (8::nat)"
  for f :: "nat \<Rightarrow> real"
  by (simp add: numeral_eq_Suc)

lemma decay_step_bounds:
  "0.7578600933 \<le> exp (- (0.277256483712 :: real))"
  "exp (- (0.277256483712 :: real)) \<le> 0.7578600936"
proof -
  define x :: real where "x = 0.277256483712"
  define S where "S = (\<Sum>m<9. (- x) ^ m / fact m)"
  define R where "R = 3 * x ^ 9 / fact 9"
  have "\<bar>exp (- x) - S\<bar> \<le> R"
    unfolding S_def R_def by (rule exp_neg_Taylor) (simp_all add: x_def)
  moreover have "0.75786009343 \<le> S"
    unfolding S_def sum_lt9 by (simp add: x_def fact_numeral power_divide)
  moreover have "S \<le> 0.75786009344"
    unfolding S_def sum_lt9 by (simp add: x_def fact_numeral power_divide)
  moreover have "R \<le> 0.00000000009"
    unfolding R_def by (simp add: x_def fact_numeral power_divide)
  ultimately have "0.7578600933 \<le> exp (- x) \<and> exp (- x) \<le> 0.7578600936"
    by (simp add: abs_le_iff)
  then show "0.7578600933 \<le> exp (- (0.277256483712 :: real))"
    and "exp (- (0.277256483712 :: real)) \<le> 0.7578600936"
    by (simp_all add: x_def)
qed

lemma N_analitik_power:
  "\<forall>i<11. N_analitik ! i = N0 * exp (- 0.277256483712) ^ i"
proof -
  have e: "exp (- (0.277256483712 :: real)) ^ k = exp (- (of_nat k * 0.277256483712))" for k
    by (simp add: exp_of_nat_mult [symmetric])
  show ?thesis
    unfolding all_lt11 e
    by (simp add: N_analitik_def nd_mul_def np_exp_def waktu_def lambda_decay_def)
qed

lemma N_analitik_bounds:
  assumes "i < 11"
  shows "10 ^ 15 * 0.7578600933 ^ i \<le> N_analitik ! i"
    and "N_analitik ! i \<le> 10 ^ 15 * 0.7578600936 ^ i"
proof -
  define a :: real where "a = exp (- 0.277256483712)"
  have nth: "N_analitik ! i = N0 * a ^ i"
    unfolding a_def using N_analitik_power assms by blast
  have "0.7578600933 ^ i \<le> a ^ i"
    unfolding a_def by (rule power_mono [OF decay_step_bounds(1)]) simp
  then show "10 ^ 15 * 0.7578600933 ^ i \<le> N_analitik ! i"
    unfolding nth by (simp add: N0_def)
  have "a ^ i \<le> 0.7578600936 ^ i"
    unfolding a_def by (rule power_mono [OF decay_step_bounds(2)]) simp
  then show "N_analitik ! i \<le> 10 ^ 15 * 0.7578600936 ^ i"
    unfolding nth by (simp add: N0_def)
qed

lemma simulation_chain:
  "\<forall>i<11. N_dt_33035 ! i \<le> N_dt_16518 ! i \<and> N_dt_16518 ! i \<le> N_dt_6607 ! i \<and>
     N_dt_6607 ! i \<le> N_dt_3304 ! i \<and> N_dt_3304 ! i \<le> N_dt_1652 ! i"
  unfolding all_lt11
  by (simp add: N_dt_33035_def N_dt_16518_def N_dt_6607_def N_dt_3304_def N_dt_1652_def)

lemma finest_below_lower_bound:
  "\<forall>i<11. N_dt_1652 ! i \<le> 10 ^ 15 * 0.7578600933 ^ i"
  unfolding all_lt11 by (simp add: N_dt_1652_def power_divide)

text \<open>
  C9. Every simulation series lies at or below the analytic series at every time sample,
  and at every index \<open>i > 0\<close> the simulation values grow as the time step shrinks:
  \<open>N_dt_33035[i] \<le> N_dt_16518[i] \<le> N_dt_6607[i] \<le> N_dt_3304[i] \<le> N_dt_1652[i] \<le> N_analitik[i]\<close>.
\<close>

theorem simulation_underestimates_analytic:
  "(\<forall>i<11. N_dt_33035 ! i \<le> N_analitik ! i \<and> N_dt_16518 ! i \<le> N_analitik ! i \<and>
      N_dt_6607 ! i \<le> N_analitik ! i \<and> N_dt_3304 ! i \<le> N_analitik ! i \<and>
      N_dt_1652 ! i \<le> N_analitik ! i) \<and>
   (\<forall>i. 0 < i \<and> i < 11 \<longrightarrow>
      N_dt_33035 ! i \<le> N_dt_16518 ! i \<and> N_dt_16518 ! i \<le> N_dt_6607 ! i \<and>
      N_dt_6607 ! i \<le> N_dt_3304 ! i \<and> N_dt_3304 ! i \<le> N_dt_1652 ! i \<and>
      N_dt_1652 ! i \<le> N_analitik ! i)"
proof -
  have "N_dt_33035 ! i \<le> N_dt_16518 ! i \<and> N_dt_16518 ! i \<le> N_dt_6607 ! i \<and>
      N_dt_6607 ! i \<le> N_dt_3304 ! i \<and> N_dt_3304 ! i \<le> N_dt_1652 ! i \<and>
      N_dt_1652 ! i \<le> N_analitik ! i" if "i < 11" for i
  proof -
    from finest_below_lower_bound that have "N_dt_1652 ! i \<le> 10 ^ 15 * 0.7578600933 ^ i"
      by blast
    from this N_analitik_bounds(1) [OF that] have "N_dt_1652 ! i \<le> N_analitik ! i"
      by (rule order_trans)
    with simulation_chain that show ?thesis by blast
  qed
  then show ?thesis by force
qed

theorem simulation_underestimates_analytic_witness:
  "(0::nat) < 10 \<and> (10::nat) < 11 \<and> N_dt_33035 ! 10 \<le> N_dt_1652 ! 10 \<and>
   6.220 * 10 ^ 13 \<le> N_analitik ! 10"
proof -
  have h: "(0::nat) < 10 \<and> (10::nat) < 11" by simp
  from simulation_underestimates_analytic
  have "\<forall>i. 0 < i \<and> i < 11 \<longrightarrow>
      N_dt_33035 ! i \<le> N_dt_16518 ! i \<and> N_dt_16518 ! i \<le> N_dt_6607 ! i \<and>
      N_dt_6607 ! i \<le> N_dt_3304 ! i \<and> N_dt_3304 ! i \<le> N_dt_1652 ! i \<and>
      N_dt_1652 ! i \<le> N_analitik ! i" by blast
  from this [rule_format, OF h]
  have "N_dt_33035 ! 10 \<le> N_dt_1652 ! 10" and "N_dt_1652 ! 10 \<le> N_analitik ! 10"
    by linarith+
  then show ?thesis by (simp add: N_dt_1652_def)
qed

section \<open>The error tables against the formula\<close>

lemma half_unit_4sf_eq:
  assumes "10 ^ k \<le> x" "x < 10 ^ (k + 1)" "3 \<le> k"
  shows "half_unit_4sf x = 10 ^ (k - 3) / 2"
proof -
  have x: "0 < x" using assms(1) by (rule less_le_trans [rotated]) simp
  have l: "log 10 ((10::real) ^ m) = real m" for m
    by (simp add: log_nat_power)
  have "\<lfloor>log 10 x\<rfloor> = int k"
  proof (rule floor_unique)
    have "log 10 (10 ^ k) \<le> log 10 x"
      using assms(1) x by (subst log_le_cancel_iff) simp_all
    then show "of_int (int k) \<le> log 10 x" unfolding l by simp
    have "log 10 x < log 10 (10 ^ (k + 1))"
      using assms(2) x by (subst log_less_cancel_iff) simp_all
    then have "log 10 x < real (k + 1)" unfolding l .
    then show "log 10 x < of_int (int k) + 1" by simp
  qed
  moreover have "real_of_int (int k) - 3 = real (k - 3)" using assms(3) by simp
  ultimately have "10 powr (of_int \<lfloor>log 10 x\<rfloor> - 3) = (10::real) ^ (k - 3)"
    by (simp only: powr_realpow zero_less_numeral)
  then show ?thesis
    using x unfolding half_unit_4sf_def by simp
qed
lemma agrees_generalI:
  fixes d :: real
  assumes L: "0 < L" "L \<le> a" and H: "a \<le> H"
    and h: "0 \<le> h"
    and e: "d \<le> e" "e + d \<le> 100" "0 \<le> d"
    and c1: "H * (1 - (e + d) / 100) \<le> n + h"
    and c2: "n - h \<le> L * (1 - (e - d) / 100)"
  shows "\<exists>n'. \<bar>n' - n\<bar> \<le> h \<and> \<bar>rel_error n' a - e\<bar> \<le> d"
proof -
  define n' where "n' = max (n - h) (a * (1 - (e + d) / 100))"
  have a: "0 < a" using L by linarith
  have f1: "0 \<le> 1 - (e + d) / 100" using e by simp
  have f2: "0 \<le> 1 - (e - d) / 100" using e by simp
  have "a * (1 - (e + d) / 100) \<le> H * (1 - (e + d) / 100)"
    using H f1 by (rule mult_right_mono)
  then have up: "n' \<le> n + h" using c1 h by (simp add: n'_def)
  have low: "n - h \<le> n'" by (simp add: n'_def)
  have "L * (1 - (e - d) / 100) \<le> a * (1 - (e - d) / 100)"
    using L(2) f2 by (rule mult_right_mono)
  moreover have "a * (1 - (e + d) / 100) \<le> a * (1 - (e - d) / 100)"
    using a e by (intro mult_left_mono) simp_all
  ultimately have top: "n' \<le> a * (1 - (e - d) / 100)"
    using c2 by (simp add: n'_def)
  have bot: "a * (1 - (e + d) / 100) \<le> n'" by (simp add: n'_def)
  have "a * (1 - (e - d) / 100) \<le> a * 1"
    using a e by (intro mult_left_mono) simp_all
  then have "n' \<le> a" using top by simp
  then have r: "rel_error n' a = (a - n') / a * 100"
    by (simp add: rel_error_def)
  have t: "(a - n') / a * 100 = 100 - 100 * n' / a"
    using a by (simp add: diff_divide_distrib)
  have s: "100 * (a * (1 - y / 100)) / a = 100 - y" for y
  proof -
    have "100 * (a * (1 - y / 100)) / a = 100 * (1 - y / 100)" using a by simp
    also have "\<dots> = 100 - y" by (simp add: right_diff_distrib)
    finally show ?thesis .
  qed
  have "100 * n' / a \<le> 100 * (a * (1 - (e - d) / 100)) / a"
    using top a by (intro divide_right_mono mult_left_mono) simp_all
  also have "\<dots> = 100 - (e - d)" by (rule s)
  finally have lo: "e - d \<le> (a - n') / a * 100" unfolding t by linarith
  have "100 * (a * (1 - (e + d) / 100)) / a \<le> 100 * n' / a"
    using bot a by (intro divide_right_mono mult_left_mono) simp_all
  moreover have "100 * (a * (1 - (e + d) / 100)) / a = 100 - (e + d)" by (rule s)
  ultimately have hi: "(a - n') / a * 100 \<le> e + d" unfolding t by linarith
  have "\<bar>rel_error n' a - e\<bar> \<le> d" unfolding r using lo hi by linarith
  moreover have "\<bar>n' - n\<bar> \<le> h" using up low by linarith
  ultimately show ?thesis by blast
qed

lemma agrees_general_not:
  fixes d :: real
  assumes L: "0 < L" "L \<le> a"
    and e: "e + d \<le> 100"
    and c: "100 * (n + h) < (100 - (e + d)) * L"
    and n': "\<bar>n' - n\<bar> \<le> h" and r: "\<bar>rel_error n' a - e\<bar> \<le> d"
  shows False
proof -
  have a: "0 < a" using L by linarith
  have "n' \<le> n + h" using n' by linarith
  then have "100 * n' \<le> 100 * (n + h)" by simp
  also note c
  also have "(100 - (e + d)) * L \<le> (100 - (e + d)) * a"
    using L(2) e by (intro mult_left_mono) simp_all
  finally have lt: "100 * n' / a < (100 - (e + d)) * a / a"
    using a by (rule divide_strict_right_mono)
  then have lt': "100 * n' / a < 100 - (e + d)" using a by simp
  have "rel_error n' a \<le> e + d" using r by linarith
  moreover have "a - n' \<le> \<bar>n' - a\<bar>" by simp
  then have "(a - n') / a * 100 \<le> rel_error n' a"
    unfolding rel_error_def using a by (intro mult_right_mono divide_right_mono) simp_all
  moreover have "(a - n') / a * 100 = 100 - 100 * n' / a"
    using a by (simp add: diff_divide_distrib)
  ultimately show False using lt' by linarith
qed

lemma rel_error_within:
  fixes d :: real
  assumes L: "0 < L" "L \<le> a" and H: "a \<le> H" and n: "n \<le> L"
    and e: "e + d \<le> 100" "0 \<le> e" "0 \<le> d"
    and c1: "(100 - e - d) * H \<le> 100 * n"
    and c2: "100 * n \<le> (100 - e + d) * L"
  shows "\<bar>e - rel_error n a\<bar> \<le> d"
proof -
  have a: "0 < a" using L by linarith
  have "n \<le> a" using n L by linarith
  then have r: "rel_error n a = 100 - 100 * n / a"
    using a by (simp add: rel_error_def diff_divide_distrib)
  have "(100 - e - d) * a \<le> (100 - e - d) * H"
    using H e by (intro mult_left_mono) simp_all
  with c1 have "(100 - e - d) * a \<le> 100 * n" by linarith
  then have "(100 - e - d) * a / a \<le> 100 * n / a"
    using a by (intro divide_right_mono) simp_all
  then have lo: "100 - e - d \<le> 100 * n / a" using a by simp
  have "(100 - e + d) * L \<le> (100 - e + d) * a"
    using L(2) e by (intro mult_left_mono) simp_all
  with c2 have "100 * n \<le> (100 - e + d) * a" by linarith
  then have "100 * n / a \<le> (100 - e + d) * a / a"
    using a by (intro divide_right_mono) simp_all
  then have hi: "100 * n / a \<le> 100 - e + d" using a by simp
  show ?thesis unfolding r using lo hi by linarith
qed

text \<open>The enclosure of each element of the analytic series, to ten significant figures.\<close>

lemma N_analitik_enclosure:
  "1.0 * 10 ^ 15 \<le> N_analitik ! 0 \<and> N_analitik ! 0 \<le> 1.0 * 10 ^ 15"
  "7.578600933 * 10 ^ 14 \<le> N_analitik ! 1 \<and> N_analitik ! 1 \<le> 7.578600936 * 10 ^ 14"
  "5.74351921 * 10 ^ 14 \<le> N_analitik ! 2 \<and> N_analitik ! 2 \<le> 5.743519215 * 10 ^ 14"
  "4.352784004 * 10 ^ 14 \<le> N_analitik ! 3 \<and> N_analitik ! 3 \<le> 4.35278401 * 10 ^ 14"
  "3.298801291 * 10 ^ 14 \<le> N_analitik ! 4 \<and> N_analitik ! 4 \<le> 3.298801297 * 10 ^ 14"
  "2.500029854 * 10 ^ 14 \<le> N_analitik ! 5 \<and> N_analitik ! 5 \<le> 2.50002986 * 10 ^ 14"
  "1.894672858 * 10 ^ 14 \<le> N_analitik ! 6 \<and> N_analitik ! 6 \<le> 1.894672864 * 10 ^ 14"
  "1.435896949 * 10 ^ 14 \<le> N_analitik ! 7 \<and> N_analitik ! 7 \<le> 1.435896954 * 10 ^ 14"
  "1.088208996 * 10 ^ 14 \<le> N_analitik ! 8 \<and> N_analitik ! 8 \<le> 1.088209 * 10 ^ 14"
  "8.24710171 * 10 ^ 13 \<le> N_analitik ! 9 \<and> N_analitik ! 9 \<le> 8.24710175 * 10 ^ 13"
  "6.25014927 * 10 ^ 13 \<le> N_analitik ! 10 \<and> N_analitik ! 10 \<le> 6.2501493 * 10 ^ 13"
proof -
  have b: "l \<le> 10 ^ 15 * 0.7578600933 ^ i \<Longrightarrow> 10 ^ 15 * 0.7578600936 ^ i \<le> h \<Longrightarrow> i < 11
    \<Longrightarrow> l \<le> N_analitik ! i \<and> N_analitik ! i \<le> h" for l h i
    using N_analitik_bounds [of i] by linarith
  show "1.0 * 10 ^ 15 \<le> N_analitik ! 0 \<and> N_analitik ! 0 \<le> 1.0 * 10 ^ 15"
    by (rule b) (simp_all add: power_divide)
  show "7.578600933 * 10 ^ 14 \<le> N_analitik ! 1 \<and> N_analitik ! 1 \<le> 7.578600936 * 10 ^ 14"
    by (rule b) (simp_all add: power_divide)
  show "5.74351921 * 10 ^ 14 \<le> N_analitik ! 2 \<and> N_analitik ! 2 \<le> 5.743519215 * 10 ^ 14"
    by (rule b) (simp_all add: power_divide)
  show "4.352784004 * 10 ^ 14 \<le> N_analitik ! 3 \<and> N_analitik ! 3 \<le> 4.35278401 * 10 ^ 14"
    by (rule b) (simp_all add: power_divide)
  show "3.298801291 * 10 ^ 14 \<le> N_analitik ! 4 \<and> N_analitik ! 4 \<le> 3.298801297 * 10 ^ 14"
    by (rule b) (simp_all add: power_divide)
  show "2.500029854 * 10 ^ 14 \<le> N_analitik ! 5 \<and> N_analitik ! 5 \<le> 2.50002986 * 10 ^ 14"
    by (rule b) (simp_all add: power_divide)
  show "1.894672858 * 10 ^ 14 \<le> N_analitik ! 6 \<and> N_analitik ! 6 \<le> 1.894672864 * 10 ^ 14"
    by (rule b) (simp_all add: power_divide)
  show "1.435896949 * 10 ^ 14 \<le> N_analitik ! 7 \<and> N_analitik ! 7 \<le> 1.435896954 * 10 ^ 14"
    by (rule b) (simp_all add: power_divide)
  show "1.088208996 * 10 ^ 14 \<le> N_analitik ! 8 \<and> N_analitik ! 8 \<le> 1.088209 * 10 ^ 14"
    by (rule b) (simp_all add: power_divide)
  show "8.24710171 * 10 ^ 13 \<le> N_analitik ! 9 \<and> N_analitik ! 9 \<le> 8.24710175 * 10 ^ 13"
    by (rule b) (simp_all add: power_divide)
  show "6.25014927 * 10 ^ 13 \<le> N_analitik ! 10 \<and> N_analitik ! 10 \<le> 6.2501493 * 10 ^ 13"
    by (rule b) (simp_all add: power_divide)
qed

lemma tol_entry:
  assumes "L \<le> a \<and> a \<le> H" and "0 < L" and "n \<le> L" and "0 \<le> e" and "e + 0.05 \<le> 100"
    and "(100 - e - 0.05) * H \<le> 100 * n"
    and "100 * n \<le> (100 - e + 0.05) * L"
  shows "\<bar>e - rel_error n a\<bar> \<le> 0.05"
proof -
  from assms(1) have "L \<le> a" "a \<le> H" by simp_all
  from assms(2) this assms(3,5,4) _ assms(6,7) show ?thesis
    by (rule rel_error_within) simp
qed

lemma agree_first:
  assumes "n = 10 ^ 15" and "e = 0"
  shows "agrees_to_rounding n (N_analitik ! 0) e"
proof -
  have "N_analitik ! 0 = 10 ^ 15"
    using N_analitik_power by (simp add: N0_def)
  then have "rel_error n (N_analitik ! 0) = 0"
    by (simp add: rel_error_def assms)
  moreover have "0 \<le> half_unit_4sf n"
    by (simp add: half_unit_4sf_def)
  ultimately have "\<bar>n - n\<bar> \<le> half_unit_4sf n \<and> \<bar>rel_error n (N_analitik ! 0) - e\<bar> \<le> 0.00005"
    by (simp add: assms)
  then show ?thesis unfolding agrees_to_rounding_def by blast
qed

lemma agree_entry:
  assumes "L \<le> a \<and> a \<le> H" and "0 < L" and "10 ^ k \<le> n" "n < 10 ^ (k + 1)" "3 \<le> k"
    and "0.00005 \<le> e" and "e + 0.00005 \<le> 100"
    and "H * (1 - (e + 0.00005) / 100) \<le> n + 10 ^ (k - 3) / 2"
    and "n - 10 ^ (k - 3) / 2 \<le> L * (1 - (e - 0.00005) / 100)"
  shows "agrees_to_rounding n a e"
proof -
  from assms(1) have "L \<le> a" "a \<le> H" by simp_all
  from assms(2) this _ assms(6,7) _ assms(8,9) show ?thesis
    unfolding agrees_to_rounding_def half_unit_4sf_eq [OF assms(3,4,5)]
    by (rule agrees_generalI) simp_all
qed

lemma disagree_entry:
  assumes "L \<le> a \<and> a \<le> H" and "0 < L" and "10 ^ k \<le> n" "n < 10 ^ (k + 1)" "3 \<le> k"
    and "e + 0.00005 \<le> 100"
    and "100 * (n + 10 ^ (k - 3) / 2) < (100 - (e + 0.00005)) * L"
  shows "\<not> agrees_to_rounding n a e"
proof -
  from assms(1) have "L \<le> a" by simp
  from agrees_general_not [OF assms(2) this assms(6,7)]
  show ?thesis
    unfolding agrees_to_rounding_def half_unit_4sf_eq [OF assms(3,4,5)] by blast
qed

lemma agrees_33035:
  "agrees_to_rounding (N_dt_33035 ! 0) (N_analitik ! 0) (error_33035 ! 0) \<and>
   agrees_to_rounding (N_dt_33035 ! 1) (N_analitik ! 1) (error_33035 ! 1) \<and>
   agrees_to_rounding (N_dt_33035 ! 2) (N_analitik ! 2) (error_33035 ! 2) \<and>
   agrees_to_rounding (N_dt_33035 ! 3) (N_analitik ! 3) (error_33035 ! 3) \<and>
   agrees_to_rounding (N_dt_33035 ! 4) (N_analitik ! 4) (error_33035 ! 4) \<and>
   agrees_to_rounding (N_dt_33035 ! 5) (N_analitik ! 5) (error_33035 ! 5) \<and>
   agrees_to_rounding (N_dt_33035 ! 7) (N_analitik ! 7) (error_33035 ! 7) \<and>
   agrees_to_rounding (N_dt_33035 ! 8) (N_analitik ! 8) (error_33035 ! 8) \<and>
   agrees_to_rounding (N_dt_33035 ! 9) (N_analitik ! 9) (error_33035 ! 9) \<and>
   agrees_to_rounding (N_dt_33035 ! 10) (N_analitik ! 10) (error_33035 ! 10)"
proof (intro conjI)
  show "agrees_to_rounding (N_dt_33035 ! 0) (N_analitik ! 0) (error_33035 ! 0)"
    by (rule agree_first) (simp_all add: N_dt_33035_def error_33035_def)
  show "agrees_to_rounding (N_dt_33035 ! 1) (N_analitik ! 1) (error_33035 ! 1)"
    by (rule agree_entry [where k = 14, OF N_analitik_enclosure(2)])
      (simp_all add: N_dt_33035_def error_33035_def)
  show "agrees_to_rounding (N_dt_33035 ! 2) (N_analitik ! 2) (error_33035 ! 2)"
    by (rule agree_entry [where k = 14, OF N_analitik_enclosure(3)])
      (simp_all add: N_dt_33035_def error_33035_def)
  show "agrees_to_rounding (N_dt_33035 ! 3) (N_analitik ! 3) (error_33035 ! 3)"
    by (rule agree_entry [where k = 14, OF N_analitik_enclosure(4)])
      (simp_all add: N_dt_33035_def error_33035_def)
  show "agrees_to_rounding (N_dt_33035 ! 4) (N_analitik ! 4) (error_33035 ! 4)"
    by (rule agree_entry [where k = 14, OF N_analitik_enclosure(5)])
      (simp_all add: N_dt_33035_def error_33035_def)
  show "agrees_to_rounding (N_dt_33035 ! 5) (N_analitik ! 5) (error_33035 ! 5)"
    by (rule agree_entry [where k = 14, OF N_analitik_enclosure(6)])
      (simp_all add: N_dt_33035_def error_33035_def)
  show "agrees_to_rounding (N_dt_33035 ! 7) (N_analitik ! 7) (error_33035 ! 7)"
    by (rule agree_entry [where k = 14, OF N_analitik_enclosure(8)])
      (simp_all add: N_dt_33035_def error_33035_def)
  show "agrees_to_rounding (N_dt_33035 ! 8) (N_analitik ! 8) (error_33035 ! 8)"
    by (rule agree_entry [where k = 14, OF N_analitik_enclosure(9)])
      (simp_all add: N_dt_33035_def error_33035_def)
  show "agrees_to_rounding (N_dt_33035 ! 9) (N_analitik ! 9) (error_33035 ! 9)"
    by (rule agree_entry [where k = 13, OF N_analitik_enclosure(10)])
      (simp_all add: N_dt_33035_def error_33035_def)
  show "agrees_to_rounding (N_dt_33035 ! 10) (N_analitik ! 10) (error_33035 ! 10)"
    by (rule agree_entry [where k = 13, OF N_analitik_enclosure(11)])
      (simp_all add: N_dt_33035_def error_33035_def)
qed

lemma tolerance_33035:
  "\<forall>i<11. \<bar>error_33035 ! i - rel_error (N_dt_33035 ! i) (N_analitik ! i)\<bar> \<le> 0.05"
  unfolding all_lt11
proof (intro conjI)
  show "\<bar>error_33035 ! 0 - rel_error (N_dt_33035 ! 0) (N_analitik ! 0)\<bar> \<le> 0.05"
    by (rule tol_entry [OF N_analitik_enclosure(1)]) (simp_all add: N_dt_33035_def error_33035_def)
  show "\<bar>error_33035 ! 1 - rel_error (N_dt_33035 ! 1) (N_analitik ! 1)\<bar> \<le> 0.05"
    by (rule tol_entry [OF N_analitik_enclosure(2)]) (simp_all add: N_dt_33035_def error_33035_def)
  show "\<bar>error_33035 ! 2 - rel_error (N_dt_33035 ! 2) (N_analitik ! 2)\<bar> \<le> 0.05"
    by (rule tol_entry [OF N_analitik_enclosure(3)]) (simp_all add: N_dt_33035_def error_33035_def)
  show "\<bar>error_33035 ! 3 - rel_error (N_dt_33035 ! 3) (N_analitik ! 3)\<bar> \<le> 0.05"
    by (rule tol_entry [OF N_analitik_enclosure(4)]) (simp_all add: N_dt_33035_def error_33035_def)
  show "\<bar>error_33035 ! 4 - rel_error (N_dt_33035 ! 4) (N_analitik ! 4)\<bar> \<le> 0.05"
    by (rule tol_entry [OF N_analitik_enclosure(5)]) (simp_all add: N_dt_33035_def error_33035_def)
  show "\<bar>error_33035 ! 5 - rel_error (N_dt_33035 ! 5) (N_analitik ! 5)\<bar> \<le> 0.05"
    by (rule tol_entry [OF N_analitik_enclosure(6)]) (simp_all add: N_dt_33035_def error_33035_def)
  show "\<bar>error_33035 ! 6 - rel_error (N_dt_33035 ! 6) (N_analitik ! 6)\<bar> \<le> 0.05"
    by (rule tol_entry [OF N_analitik_enclosure(7)]) (simp_all add: N_dt_33035_def error_33035_def)
  show "\<bar>error_33035 ! 7 - rel_error (N_dt_33035 ! 7) (N_analitik ! 7)\<bar> \<le> 0.05"
    by (rule tol_entry [OF N_analitik_enclosure(8)]) (simp_all add: N_dt_33035_def error_33035_def)
  show "\<bar>error_33035 ! 8 - rel_error (N_dt_33035 ! 8) (N_analitik ! 8)\<bar> \<le> 0.05"
    by (rule tol_entry [OF N_analitik_enclosure(9)]) (simp_all add: N_dt_33035_def error_33035_def)
  show "\<bar>error_33035 ! 9 - rel_error (N_dt_33035 ! 9) (N_analitik ! 9)\<bar> \<le> 0.05"
    by (rule tol_entry [OF N_analitik_enclosure(10)]) (simp_all add: N_dt_33035_def error_33035_def)
  show "\<bar>error_33035 ! 10 - rel_error (N_dt_33035 ! 10) (N_analitik ! 10)\<bar> \<le> 0.05"
    by (rule tol_entry [OF N_analitik_enclosure(11)]) (simp_all add: N_dt_33035_def error_33035_def)
qed

lemma agrees_16518:
  "agrees_to_rounding (N_dt_16518 ! 0) (N_analitik ! 0) (error_16518 ! 0) \<and>
   agrees_to_rounding (N_dt_16518 ! 1) (N_analitik ! 1) (error_16518 ! 1) \<and>
   agrees_to_rounding (N_dt_16518 ! 2) (N_analitik ! 2) (error_16518 ! 2) \<and>
   agrees_to_rounding (N_dt_16518 ! 3) (N_analitik ! 3) (error_16518 ! 3) \<and>
   agrees_to_rounding (N_dt_16518 ! 4) (N_analitik ! 4) (error_16518 ! 4) \<and>
   agrees_to_rounding (N_dt_16518 ! 5) (N_analitik ! 5) (error_16518 ! 5) \<and>
   agrees_to_rounding (N_dt_16518 ! 6) (N_analitik ! 6) (error_16518 ! 6) \<and>
   agrees_to_rounding (N_dt_16518 ! 7) (N_analitik ! 7) (error_16518 ! 7) \<and>
   agrees_to_rounding (N_dt_16518 ! 8) (N_analitik ! 8) (error_16518 ! 8) \<and>
   agrees_to_rounding (N_dt_16518 ! 9) (N_analitik ! 9) (error_16518 ! 9) \<and>
   agrees_to_rounding (N_dt_16518 ! 10) (N_analitik ! 10) (error_16518 ! 10)"
proof (intro conjI)
  show "agrees_to_rounding (N_dt_16518 ! 0) (N_analitik ! 0) (error_16518 ! 0)"
    by (rule agree_first) (simp_all add: N_dt_16518_def error_16518_def)
  show "agrees_to_rounding (N_dt_16518 ! 1) (N_analitik ! 1) (error_16518 ! 1)"
    by (rule agree_entry [where k = 14, OF N_analitik_enclosure(2)])
      (simp_all add: N_dt_16518_def error_16518_def)
  show "agrees_to_rounding (N_dt_16518 ! 2) (N_analitik ! 2) (error_16518 ! 2)"
    by (rule agree_entry [where k = 14, OF N_analitik_enclosure(3)])
      (simp_all add: N_dt_16518_def error_16518_def)
  show "agrees_to_rounding (N_dt_16518 ! 3) (N_analitik ! 3) (error_16518 ! 3)"
    by (rule agree_entry [where k = 14, OF N_analitik_enclosure(4)])
      (simp_all add: N_dt_16518_def error_16518_def)
  show "agrees_to_rounding (N_dt_16518 ! 4) (N_analitik ! 4) (error_16518 ! 4)"
    by (rule agree_entry [where k = 14, OF N_analitik_enclosure(5)])
      (simp_all add: N_dt_16518_def error_16518_def)
  show "agrees_to_rounding (N_dt_16518 ! 5) (N_analitik ! 5) (error_16518 ! 5)"
    by (rule agree_entry [where k = 14, OF N_analitik_enclosure(6)])
      (simp_all add: N_dt_16518_def error_16518_def)
  show "agrees_to_rounding (N_dt_16518 ! 6) (N_analitik ! 6) (error_16518 ! 6)"
    by (rule agree_entry [where k = 14, OF N_analitik_enclosure(7)])
      (simp_all add: N_dt_16518_def error_16518_def)
  show "agrees_to_rounding (N_dt_16518 ! 7) (N_analitik ! 7) (error_16518 ! 7)"
    by (rule agree_entry [where k = 14, OF N_analitik_enclosure(8)])
      (simp_all add: N_dt_16518_def error_16518_def)
  show "agrees_to_rounding (N_dt_16518 ! 8) (N_analitik ! 8) (error_16518 ! 8)"
    by (rule agree_entry [where k = 14, OF N_analitik_enclosure(9)])
      (simp_all add: N_dt_16518_def error_16518_def)
  show "agrees_to_rounding (N_dt_16518 ! 9) (N_analitik ! 9) (error_16518 ! 9)"
    by (rule agree_entry [where k = 13, OF N_analitik_enclosure(10)])
      (simp_all add: N_dt_16518_def error_16518_def)
  show "agrees_to_rounding (N_dt_16518 ! 10) (N_analitik ! 10) (error_16518 ! 10)"
    by (rule agree_entry [where k = 13, OF N_analitik_enclosure(11)])
      (simp_all add: N_dt_16518_def error_16518_def)
qed

lemma tolerance_16518:
  "\<forall>i<11. \<bar>error_16518 ! i - rel_error (N_dt_16518 ! i) (N_analitik ! i)\<bar> \<le> 0.05"
  unfolding all_lt11
proof (intro conjI)
  show "\<bar>error_16518 ! 0 - rel_error (N_dt_16518 ! 0) (N_analitik ! 0)\<bar> \<le> 0.05"
    by (rule tol_entry [OF N_analitik_enclosure(1)]) (simp_all add: N_dt_16518_def error_16518_def)
  show "\<bar>error_16518 ! 1 - rel_error (N_dt_16518 ! 1) (N_analitik ! 1)\<bar> \<le> 0.05"
    by (rule tol_entry [OF N_analitik_enclosure(2)]) (simp_all add: N_dt_16518_def error_16518_def)
  show "\<bar>error_16518 ! 2 - rel_error (N_dt_16518 ! 2) (N_analitik ! 2)\<bar> \<le> 0.05"
    by (rule tol_entry [OF N_analitik_enclosure(3)]) (simp_all add: N_dt_16518_def error_16518_def)
  show "\<bar>error_16518 ! 3 - rel_error (N_dt_16518 ! 3) (N_analitik ! 3)\<bar> \<le> 0.05"
    by (rule tol_entry [OF N_analitik_enclosure(4)]) (simp_all add: N_dt_16518_def error_16518_def)
  show "\<bar>error_16518 ! 4 - rel_error (N_dt_16518 ! 4) (N_analitik ! 4)\<bar> \<le> 0.05"
    by (rule tol_entry [OF N_analitik_enclosure(5)]) (simp_all add: N_dt_16518_def error_16518_def)
  show "\<bar>error_16518 ! 5 - rel_error (N_dt_16518 ! 5) (N_analitik ! 5)\<bar> \<le> 0.05"
    by (rule tol_entry [OF N_analitik_enclosure(6)]) (simp_all add: N_dt_16518_def error_16518_def)
  show "\<bar>error_16518 ! 6 - rel_error (N_dt_16518 ! 6) (N_analitik ! 6)\<bar> \<le> 0.05"
    by (rule tol_entry [OF N_analitik_enclosure(7)]) (simp_all add: N_dt_16518_def error_16518_def)
  show "\<bar>error_16518 ! 7 - rel_error (N_dt_16518 ! 7) (N_analitik ! 7)\<bar> \<le> 0.05"
    by (rule tol_entry [OF N_analitik_enclosure(8)]) (simp_all add: N_dt_16518_def error_16518_def)
  show "\<bar>error_16518 ! 8 - rel_error (N_dt_16518 ! 8) (N_analitik ! 8)\<bar> \<le> 0.05"
    by (rule tol_entry [OF N_analitik_enclosure(9)]) (simp_all add: N_dt_16518_def error_16518_def)
  show "\<bar>error_16518 ! 9 - rel_error (N_dt_16518 ! 9) (N_analitik ! 9)\<bar> \<le> 0.05"
    by (rule tol_entry [OF N_analitik_enclosure(10)]) (simp_all add: N_dt_16518_def error_16518_def)
  show "\<bar>error_16518 ! 10 - rel_error (N_dt_16518 ! 10) (N_analitik ! 10)\<bar> \<le> 0.05"
    by (rule tol_entry [OF N_analitik_enclosure(11)]) (simp_all add: N_dt_16518_def error_16518_def)
qed

lemma agrees_6607:
  "agrees_to_rounding (N_dt_6607 ! 0) (N_analitik ! 0) (error_6607 ! 0) \<and>
   agrees_to_rounding (N_dt_6607 ! 1) (N_analitik ! 1) (error_6607 ! 1) \<and>
   agrees_to_rounding (N_dt_6607 ! 2) (N_analitik ! 2) (error_6607 ! 2) \<and>
   agrees_to_rounding (N_dt_6607 ! 4) (N_analitik ! 4) (error_6607 ! 4) \<and>
   agrees_to_rounding (N_dt_6607 ! 5) (N_analitik ! 5) (error_6607 ! 5) \<and>
   agrees_to_rounding (N_dt_6607 ! 6) (N_analitik ! 6) (error_6607 ! 6) \<and>
   agrees_to_rounding (N_dt_6607 ! 7) (N_analitik ! 7) (error_6607 ! 7) \<and>
   agrees_to_rounding (N_dt_6607 ! 8) (N_analitik ! 8) (error_6607 ! 8) \<and>
   agrees_to_rounding (N_dt_6607 ! 9) (N_analitik ! 9) (error_6607 ! 9) \<and>
   agrees_to_rounding (N_dt_6607 ! 10) (N_analitik ! 10) (error_6607 ! 10)"
proof (intro conjI)
  show "agrees_to_rounding (N_dt_6607 ! 0) (N_analitik ! 0) (error_6607 ! 0)"
    by (rule agree_first) (simp_all add: N_dt_6607_def error_6607_def)
  show "agrees_to_rounding (N_dt_6607 ! 1) (N_analitik ! 1) (error_6607 ! 1)"
    by (rule agree_entry [where k = 14, OF N_analitik_enclosure(2)])
      (simp_all add: N_dt_6607_def error_6607_def)
  show "agrees_to_rounding (N_dt_6607 ! 2) (N_analitik ! 2) (error_6607 ! 2)"
    by (rule agree_entry [where k = 14, OF N_analitik_enclosure(3)])
      (simp_all add: N_dt_6607_def error_6607_def)
  show "agrees_to_rounding (N_dt_6607 ! 4) (N_analitik ! 4) (error_6607 ! 4)"
    by (rule agree_entry [where k = 14, OF N_analitik_enclosure(5)])
      (simp_all add: N_dt_6607_def error_6607_def)
  show "agrees_to_rounding (N_dt_6607 ! 5) (N_analitik ! 5) (error_6607 ! 5)"
    by (rule agree_entry [where k = 14, OF N_analitik_enclosure(6)])
      (simp_all add: N_dt_6607_def error_6607_def)
  show "agrees_to_rounding (N_dt_6607 ! 6) (N_analitik ! 6) (error_6607 ! 6)"
    by (rule agree_entry [where k = 14, OF N_analitik_enclosure(7)])
      (simp_all add: N_dt_6607_def error_6607_def)
  show "agrees_to_rounding (N_dt_6607 ! 7) (N_analitik ! 7) (error_6607 ! 7)"
    by (rule agree_entry [where k = 14, OF N_analitik_enclosure(8)])
      (simp_all add: N_dt_6607_def error_6607_def)
  show "agrees_to_rounding (N_dt_6607 ! 8) (N_analitik ! 8) (error_6607 ! 8)"
    by (rule agree_entry [where k = 14, OF N_analitik_enclosure(9)])
      (simp_all add: N_dt_6607_def error_6607_def)
  show "agrees_to_rounding (N_dt_6607 ! 9) (N_analitik ! 9) (error_6607 ! 9)"
    by (rule agree_entry [where k = 13, OF N_analitik_enclosure(10)])
      (simp_all add: N_dt_6607_def error_6607_def)
  show "agrees_to_rounding (N_dt_6607 ! 10) (N_analitik ! 10) (error_6607 ! 10)"
    by (rule agree_entry [where k = 13, OF N_analitik_enclosure(11)])
      (simp_all add: N_dt_6607_def error_6607_def)
qed

lemma tolerance_6607:
  "\<forall>i<11. \<bar>error_6607 ! i - rel_error (N_dt_6607 ! i) (N_analitik ! i)\<bar> \<le> 0.05"
  unfolding all_lt11
proof (intro conjI)
  show "\<bar>error_6607 ! 0 - rel_error (N_dt_6607 ! 0) (N_analitik ! 0)\<bar> \<le> 0.05"
    by (rule tol_entry [OF N_analitik_enclosure(1)]) (simp_all add: N_dt_6607_def error_6607_def)
  show "\<bar>error_6607 ! 1 - rel_error (N_dt_6607 ! 1) (N_analitik ! 1)\<bar> \<le> 0.05"
    by (rule tol_entry [OF N_analitik_enclosure(2)]) (simp_all add: N_dt_6607_def error_6607_def)
  show "\<bar>error_6607 ! 2 - rel_error (N_dt_6607 ! 2) (N_analitik ! 2)\<bar> \<le> 0.05"
    by (rule tol_entry [OF N_analitik_enclosure(3)]) (simp_all add: N_dt_6607_def error_6607_def)
  show "\<bar>error_6607 ! 3 - rel_error (N_dt_6607 ! 3) (N_analitik ! 3)\<bar> \<le> 0.05"
    by (rule tol_entry [OF N_analitik_enclosure(4)]) (simp_all add: N_dt_6607_def error_6607_def)
  show "\<bar>error_6607 ! 4 - rel_error (N_dt_6607 ! 4) (N_analitik ! 4)\<bar> \<le> 0.05"
    by (rule tol_entry [OF N_analitik_enclosure(5)]) (simp_all add: N_dt_6607_def error_6607_def)
  show "\<bar>error_6607 ! 5 - rel_error (N_dt_6607 ! 5) (N_analitik ! 5)\<bar> \<le> 0.05"
    by (rule tol_entry [OF N_analitik_enclosure(6)]) (simp_all add: N_dt_6607_def error_6607_def)
  show "\<bar>error_6607 ! 6 - rel_error (N_dt_6607 ! 6) (N_analitik ! 6)\<bar> \<le> 0.05"
    by (rule tol_entry [OF N_analitik_enclosure(7)]) (simp_all add: N_dt_6607_def error_6607_def)
  show "\<bar>error_6607 ! 7 - rel_error (N_dt_6607 ! 7) (N_analitik ! 7)\<bar> \<le> 0.05"
    by (rule tol_entry [OF N_analitik_enclosure(8)]) (simp_all add: N_dt_6607_def error_6607_def)
  show "\<bar>error_6607 ! 8 - rel_error (N_dt_6607 ! 8) (N_analitik ! 8)\<bar> \<le> 0.05"
    by (rule tol_entry [OF N_analitik_enclosure(9)]) (simp_all add: N_dt_6607_def error_6607_def)
  show "\<bar>error_6607 ! 9 - rel_error (N_dt_6607 ! 9) (N_analitik ! 9)\<bar> \<le> 0.05"
    by (rule tol_entry [OF N_analitik_enclosure(10)]) (simp_all add: N_dt_6607_def error_6607_def)
  show "\<bar>error_6607 ! 10 - rel_error (N_dt_6607 ! 10) (N_analitik ! 10)\<bar> \<le> 0.05"
    by (rule tol_entry [OF N_analitik_enclosure(11)]) (simp_all add: N_dt_6607_def error_6607_def)
qed

lemma agrees_3304:
  "agrees_to_rounding (N_dt_3304 ! 0) (N_analitik ! 0) (error_3304 ! 0) \<and>
   agrees_to_rounding (N_dt_3304 ! 1) (N_analitik ! 1) (error_3304 ! 1) \<and>
   agrees_to_rounding (N_dt_3304 ! 2) (N_analitik ! 2) (error_3304 ! 2) \<and>
   agrees_to_rounding (N_dt_3304 ! 3) (N_analitik ! 3) (error_3304 ! 3) \<and>
   agrees_to_rounding (N_dt_3304 ! 4) (N_analitik ! 4) (error_3304 ! 4) \<and>
   agrees_to_rounding (N_dt_3304 ! 5) (N_analitik ! 5) (error_3304 ! 5) \<and>
   agrees_to_rounding (N_dt_3304 ! 6) (N_analitik ! 6) (error_3304 ! 6) \<and>
   agrees_to_rounding (N_dt_3304 ! 7) (N_analitik ! 7) (error_3304 ! 7) \<and>
   agrees_to_rounding (N_dt_3304 ! 8) (N_analitik ! 8) (error_3304 ! 8) \<and>
   agrees_to_rounding (N_dt_3304 ! 9) (N_analitik ! 9) (error_3304 ! 9) \<and>
   agrees_to_rounding (N_dt_3304 ! 10) (N_analitik ! 10) (error_3304 ! 10)"
proof (intro conjI)
  show "agrees_to_rounding (N_dt_3304 ! 0) (N_analitik ! 0) (error_3304 ! 0)"
    by (rule agree_first) (simp_all add: N_dt_3304_def error_3304_def)
  show "agrees_to_rounding (N_dt_3304 ! 1) (N_analitik ! 1) (error_3304 ! 1)"
    by (rule agree_entry [where k = 14, OF N_analitik_enclosure(2)])
      (simp_all add: N_dt_3304_def error_3304_def)
  show "agrees_to_rounding (N_dt_3304 ! 2) (N_analitik ! 2) (error_3304 ! 2)"
    by (rule agree_entry [where k = 14, OF N_analitik_enclosure(3)])
      (simp_all add: N_dt_3304_def error_3304_def)
  show "agrees_to_rounding (N_dt_3304 ! 3) (N_analitik ! 3) (error_3304 ! 3)"
    by (rule agree_entry [where k = 14, OF N_analitik_enclosure(4)])
      (simp_all add: N_dt_3304_def error_3304_def)
  show "agrees_to_rounding (N_dt_3304 ! 4) (N_analitik ! 4) (error_3304 ! 4)"
    by (rule agree_entry [where k = 14, OF N_analitik_enclosure(5)])
      (simp_all add: N_dt_3304_def error_3304_def)
  show "agrees_to_rounding (N_dt_3304 ! 5) (N_analitik ! 5) (error_3304 ! 5)"
    by (rule agree_entry [where k = 14, OF N_analitik_enclosure(6)])
      (simp_all add: N_dt_3304_def error_3304_def)
  show "agrees_to_rounding (N_dt_3304 ! 6) (N_analitik ! 6) (error_3304 ! 6)"
    by (rule agree_entry [where k = 14, OF N_analitik_enclosure(7)])
      (simp_all add: N_dt_3304_def error_3304_def)
  show "agrees_to_rounding (N_dt_3304 ! 7) (N_analitik ! 7) (error_3304 ! 7)"
    by (rule agree_entry [where k = 14, OF N_analitik_enclosure(8)])
      (simp_all add: N_dt_3304_def error_3304_def)
  show "agrees_to_rounding (N_dt_3304 ! 8) (N_analitik ! 8) (error_3304 ! 8)"
    by (rule agree_entry [where k = 14, OF N_analitik_enclosure(9)])
      (simp_all add: N_dt_3304_def error_3304_def)
  show "agrees_to_rounding (N_dt_3304 ! 9) (N_analitik ! 9) (error_3304 ! 9)"
    by (rule agree_entry [where k = 13, OF N_analitik_enclosure(10)])
      (simp_all add: N_dt_3304_def error_3304_def)
  show "agrees_to_rounding (N_dt_3304 ! 10) (N_analitik ! 10) (error_3304 ! 10)"
    by (rule agree_entry [where k = 13, OF N_analitik_enclosure(11)])
      (simp_all add: N_dt_3304_def error_3304_def)
qed

lemma tolerance_3304:
  "\<forall>i<11. \<bar>error_3304 ! i - rel_error (N_dt_3304 ! i) (N_analitik ! i)\<bar> \<le> 0.05"
  unfolding all_lt11
proof (intro conjI)
  show "\<bar>error_3304 ! 0 - rel_error (N_dt_3304 ! 0) (N_analitik ! 0)\<bar> \<le> 0.05"
    by (rule tol_entry [OF N_analitik_enclosure(1)]) (simp_all add: N_dt_3304_def error_3304_def)
  show "\<bar>error_3304 ! 1 - rel_error (N_dt_3304 ! 1) (N_analitik ! 1)\<bar> \<le> 0.05"
    by (rule tol_entry [OF N_analitik_enclosure(2)]) (simp_all add: N_dt_3304_def error_3304_def)
  show "\<bar>error_3304 ! 2 - rel_error (N_dt_3304 ! 2) (N_analitik ! 2)\<bar> \<le> 0.05"
    by (rule tol_entry [OF N_analitik_enclosure(3)]) (simp_all add: N_dt_3304_def error_3304_def)
  show "\<bar>error_3304 ! 3 - rel_error (N_dt_3304 ! 3) (N_analitik ! 3)\<bar> \<le> 0.05"
    by (rule tol_entry [OF N_analitik_enclosure(4)]) (simp_all add: N_dt_3304_def error_3304_def)
  show "\<bar>error_3304 ! 4 - rel_error (N_dt_3304 ! 4) (N_analitik ! 4)\<bar> \<le> 0.05"
    by (rule tol_entry [OF N_analitik_enclosure(5)]) (simp_all add: N_dt_3304_def error_3304_def)
  show "\<bar>error_3304 ! 5 - rel_error (N_dt_3304 ! 5) (N_analitik ! 5)\<bar> \<le> 0.05"
    by (rule tol_entry [OF N_analitik_enclosure(6)]) (simp_all add: N_dt_3304_def error_3304_def)
  show "\<bar>error_3304 ! 6 - rel_error (N_dt_3304 ! 6) (N_analitik ! 6)\<bar> \<le> 0.05"
    by (rule tol_entry [OF N_analitik_enclosure(7)]) (simp_all add: N_dt_3304_def error_3304_def)
  show "\<bar>error_3304 ! 7 - rel_error (N_dt_3304 ! 7) (N_analitik ! 7)\<bar> \<le> 0.05"
    by (rule tol_entry [OF N_analitik_enclosure(8)]) (simp_all add: N_dt_3304_def error_3304_def)
  show "\<bar>error_3304 ! 8 - rel_error (N_dt_3304 ! 8) (N_analitik ! 8)\<bar> \<le> 0.05"
    by (rule tol_entry [OF N_analitik_enclosure(9)]) (simp_all add: N_dt_3304_def error_3304_def)
  show "\<bar>error_3304 ! 9 - rel_error (N_dt_3304 ! 9) (N_analitik ! 9)\<bar> \<le> 0.05"
    by (rule tol_entry [OF N_analitik_enclosure(10)]) (simp_all add: N_dt_3304_def error_3304_def)
  show "\<bar>error_3304 ! 10 - rel_error (N_dt_3304 ! 10) (N_analitik ! 10)\<bar> \<le> 0.05"
    by (rule tol_entry [OF N_analitik_enclosure(11)]) (simp_all add: N_dt_3304_def error_3304_def)
qed

lemma agrees_1652:
  "agrees_to_rounding (N_dt_1652 ! 0) (N_analitik ! 0) (error_1652 ! 0) \<and>
   agrees_to_rounding (N_dt_1652 ! 1) (N_analitik ! 1) (error_1652 ! 1) \<and>
   agrees_to_rounding (N_dt_1652 ! 2) (N_analitik ! 2) (error_1652 ! 2) \<and>
   agrees_to_rounding (N_dt_1652 ! 3) (N_analitik ! 3) (error_1652 ! 3) \<and>
   agrees_to_rounding (N_dt_1652 ! 4) (N_analitik ! 4) (error_1652 ! 4) \<and>
   agrees_to_rounding (N_dt_1652 ! 5) (N_analitik ! 5) (error_1652 ! 5) \<and>
   agrees_to_rounding (N_dt_1652 ! 6) (N_analitik ! 6) (error_1652 ! 6) \<and>
   agrees_to_rounding (N_dt_1652 ! 7) (N_analitik ! 7) (error_1652 ! 7) \<and>
   agrees_to_rounding (N_dt_1652 ! 8) (N_analitik ! 8) (error_1652 ! 8) \<and>
   agrees_to_rounding (N_dt_1652 ! 9) (N_analitik ! 9) (error_1652 ! 9) \<and>
   agrees_to_rounding (N_dt_1652 ! 10) (N_analitik ! 10) (error_1652 ! 10)"
proof (intro conjI)
  show "agrees_to_rounding (N_dt_1652 ! 0) (N_analitik ! 0) (error_1652 ! 0)"
    by (rule agree_first) (simp_all add: N_dt_1652_def error_1652_def)
  show "agrees_to_rounding (N_dt_1652 ! 1) (N_analitik ! 1) (error_1652 ! 1)"
    by (rule agree_entry [where k = 14, OF N_analitik_enclosure(2)])
      (simp_all add: N_dt_1652_def error_1652_def)
  show "agrees_to_rounding (N_dt_1652 ! 2) (N_analitik ! 2) (error_1652 ! 2)"
    by (rule agree_entry [where k = 14, OF N_analitik_enclosure(3)])
      (simp_all add: N_dt_1652_def error_1652_def)
  show "agrees_to_rounding (N_dt_1652 ! 3) (N_analitik ! 3) (error_1652 ! 3)"
    by (rule agree_entry [where k = 14, OF N_analitik_enclosure(4)])
      (simp_all add: N_dt_1652_def error_1652_def)
  show "agrees_to_rounding (N_dt_1652 ! 4) (N_analitik ! 4) (error_1652 ! 4)"
    by (rule agree_entry [where k = 14, OF N_analitik_enclosure(5)])
      (simp_all add: N_dt_1652_def error_1652_def)
  show "agrees_to_rounding (N_dt_1652 ! 5) (N_analitik ! 5) (error_1652 ! 5)"
    by (rule agree_entry [where k = 14, OF N_analitik_enclosure(6)])
      (simp_all add: N_dt_1652_def error_1652_def)
  show "agrees_to_rounding (N_dt_1652 ! 6) (N_analitik ! 6) (error_1652 ! 6)"
    by (rule agree_entry [where k = 14, OF N_analitik_enclosure(7)])
      (simp_all add: N_dt_1652_def error_1652_def)
  show "agrees_to_rounding (N_dt_1652 ! 7) (N_analitik ! 7) (error_1652 ! 7)"
    by (rule agree_entry [where k = 14, OF N_analitik_enclosure(8)])
      (simp_all add: N_dt_1652_def error_1652_def)
  show "agrees_to_rounding (N_dt_1652 ! 8) (N_analitik ! 8) (error_1652 ! 8)"
    by (rule agree_entry [where k = 14, OF N_analitik_enclosure(9)])
      (simp_all add: N_dt_1652_def error_1652_def)
  show "agrees_to_rounding (N_dt_1652 ! 9) (N_analitik ! 9) (error_1652 ! 9)"
    by (rule agree_entry [where k = 13, OF N_analitik_enclosure(10)])
      (simp_all add: N_dt_1652_def error_1652_def)
  show "agrees_to_rounding (N_dt_1652 ! 10) (N_analitik ! 10) (error_1652 ! 10)"
    by (rule agree_entry [where k = 13, OF N_analitik_enclosure(11)])
      (simp_all add: N_dt_1652_def error_1652_def)
qed

lemma tolerance_1652:
  "\<forall>i<11. \<bar>error_1652 ! i - rel_error (N_dt_1652 ! i) (N_analitik ! i)\<bar> \<le> 0.05"
  unfolding all_lt11
proof (intro conjI)
  show "\<bar>error_1652 ! 0 - rel_error (N_dt_1652 ! 0) (N_analitik ! 0)\<bar> \<le> 0.05"
    by (rule tol_entry [OF N_analitik_enclosure(1)]) (simp_all add: N_dt_1652_def error_1652_def)
  show "\<bar>error_1652 ! 1 - rel_error (N_dt_1652 ! 1) (N_analitik ! 1)\<bar> \<le> 0.05"
    by (rule tol_entry [OF N_analitik_enclosure(2)]) (simp_all add: N_dt_1652_def error_1652_def)
  show "\<bar>error_1652 ! 2 - rel_error (N_dt_1652 ! 2) (N_analitik ! 2)\<bar> \<le> 0.05"
    by (rule tol_entry [OF N_analitik_enclosure(3)]) (simp_all add: N_dt_1652_def error_1652_def)
  show "\<bar>error_1652 ! 3 - rel_error (N_dt_1652 ! 3) (N_analitik ! 3)\<bar> \<le> 0.05"
    by (rule tol_entry [OF N_analitik_enclosure(4)]) (simp_all add: N_dt_1652_def error_1652_def)
  show "\<bar>error_1652 ! 4 - rel_error (N_dt_1652 ! 4) (N_analitik ! 4)\<bar> \<le> 0.05"
    by (rule tol_entry [OF N_analitik_enclosure(5)]) (simp_all add: N_dt_1652_def error_1652_def)
  show "\<bar>error_1652 ! 5 - rel_error (N_dt_1652 ! 5) (N_analitik ! 5)\<bar> \<le> 0.05"
    by (rule tol_entry [OF N_analitik_enclosure(6)]) (simp_all add: N_dt_1652_def error_1652_def)
  show "\<bar>error_1652 ! 6 - rel_error (N_dt_1652 ! 6) (N_analitik ! 6)\<bar> \<le> 0.05"
    by (rule tol_entry [OF N_analitik_enclosure(7)]) (simp_all add: N_dt_1652_def error_1652_def)
  show "\<bar>error_1652 ! 7 - rel_error (N_dt_1652 ! 7) (N_analitik ! 7)\<bar> \<le> 0.05"
    by (rule tol_entry [OF N_analitik_enclosure(8)]) (simp_all add: N_dt_1652_def error_1652_def)
  show "\<bar>error_1652 ! 8 - rel_error (N_dt_1652 ! 8) (N_analitik ! 8)\<bar> \<le> 0.05"
    by (rule tol_entry [OF N_analitik_enclosure(9)]) (simp_all add: N_dt_1652_def error_1652_def)
  show "\<bar>error_1652 ! 9 - rel_error (N_dt_1652 ! 9) (N_analitik ! 9)\<bar> \<le> 0.05"
    by (rule tol_entry [OF N_analitik_enclosure(10)]) (simp_all add: N_dt_1652_def error_1652_def)
  show "\<bar>error_1652 ! 10 - rel_error (N_dt_1652 ! 10) (N_analitik ! 10)\<bar> \<le> 0.05"
    by (rule tol_entry [OF N_analitik_enclosure(11)]) (simp_all add: N_dt_1652_def error_1652_def)
qed

text \<open>
  C5 as stated: every literal error agrees with
  \<open>|N_dt[i] - N_analitik[i]| / N_analitik[i] * 100\<close> up to the rounding precision of the
  literal data. This fails for the series with \<open>dt = 6607\<close> at index 3: the table has
  \<open>4.327e14\<close> and \<open>0.5802\<close>, but every value that rounds to \<open>4.327e14\<close> gives an error above
  \<open>0.58025\<close>.
\<close>

theorem error_6607_at_3_disagrees:
  "\<not> agrees_to_rounding (N_dt_6607 ! 3) (N_analitik ! 3) (error_6607 ! 3)"
  by (rule disagree_entry [where k = 14, OF N_analitik_enclosure(4)])
    (simp_all add: N_dt_6607_def error_6607_def)

lemma error_33035_at_6_disagrees:
  "\<not> agrees_to_rounding (N_dt_33035 ! 6) (N_analitik ! 6) (error_33035 ! 6)"
  by (rule disagree_entry [where k = 14, OF N_analitik_enclosure(7)])
    (simp_all add: N_dt_33035_def error_33035_def)

text \<open>
  C5, amended. Every literal error agrees with the formula up to the rounding precision of
  the literal data, except the entries \<open>dt = 33035\<close>, index 6 and \<open>dt = 6607\<close>, index 3;
  and at every entry, these two included, the literal error is within 0.05 percentage
  points of the formula evaluated on the literal simulation value.
\<close>

theorem error_tables_agree_with_formula:
  "(\<forall>i<11.
      (i \<noteq> 6 \<longrightarrow> agrees_to_rounding (N_dt_33035 ! i) (N_analitik ! i) (error_33035 ! i)) \<and>
      agrees_to_rounding (N_dt_16518 ! i) (N_analitik ! i) (error_16518 ! i) \<and>
      (i \<noteq> 3 \<longrightarrow> agrees_to_rounding (N_dt_6607 ! i) (N_analitik ! i) (error_6607 ! i)) \<and>
      agrees_to_rounding (N_dt_3304 ! i) (N_analitik ! i) (error_3304 ! i) \<and>
      agrees_to_rounding (N_dt_1652 ! i) (N_analitik ! i) (error_1652 ! i)) \<and>
   (\<forall>i<11.
      \<bar>error_33035 ! i - rel_error (N_dt_33035 ! i) (N_analitik ! i)\<bar> \<le> 0.05 \<and>
      \<bar>error_16518 ! i - rel_error (N_dt_16518 ! i) (N_analitik ! i)\<bar> \<le> 0.05 \<and>
      \<bar>error_6607 ! i - rel_error (N_dt_6607 ! i) (N_analitik ! i)\<bar> \<le> 0.05 \<and>
      \<bar>error_3304 ! i - rel_error (N_dt_3304 ! i) (N_analitik ! i)\<bar> \<le> 0.05 \<and>
      \<bar>error_1652 ! i - rel_error (N_dt_1652 ! i) (N_analitik ! i)\<bar> \<le> 0.05)"
proof (rule conjI)
  show "\<forall>i<11.
      (i \<noteq> 6 \<longrightarrow> agrees_to_rounding (N_dt_33035 ! i) (N_analitik ! i) (error_33035 ! i)) \<and>
      agrees_to_rounding (N_dt_16518 ! i) (N_analitik ! i) (error_16518 ! i) \<and>
      (i \<noteq> 3 \<longrightarrow> agrees_to_rounding (N_dt_6607 ! i) (N_analitik ! i) (error_6607 ! i)) \<and>
      agrees_to_rounding (N_dt_3304 ! i) (N_analitik ! i) (error_3304 ! i) \<and>
      agrees_to_rounding (N_dt_1652 ! i) (N_analitik ! i) (error_1652 ! i)"
    unfolding all_lt11
    using agrees_33035 agrees_16518 agrees_6607 agrees_3304 agrees_1652 by simp
  show "\<forall>i<11.
      \<bar>error_33035 ! i - rel_error (N_dt_33035 ! i) (N_analitik ! i)\<bar> \<le> 0.05 \<and>
      \<bar>error_16518 ! i - rel_error (N_dt_16518 ! i) (N_analitik ! i)\<bar> \<le> 0.05 \<and>
      \<bar>error_6607 ! i - rel_error (N_dt_6607 ! i) (N_analitik ! i)\<bar> \<le> 0.05 \<and>
      \<bar>error_3304 ! i - rel_error (N_dt_3304 ! i) (N_analitik ! i)\<bar> \<le> 0.05 \<and>
      \<bar>error_1652 ! i - rel_error (N_dt_1652 ! i) (N_analitik ! i)\<bar> \<le> 0.05"
    using tolerance_33035 tolerance_16518 tolerance_6607 tolerance_3304 tolerance_1652
    by blast
qed

theorem error_tables_agree_with_formula_witness:
  "(10::nat) < 11 \<and> (10::nat) \<noteq> 6 \<and>
   agrees_to_rounding (5.651 * 10 ^ 13) (N_analitik ! 10) 9.5864 \<and>
   \<bar>9.5864 - rel_error (5.651 * 10 ^ 13) (N_analitik ! 10)\<bar> \<le> 0.05"
proof -
  have h: "(10::nat) < 11" and k: "(10::nat) \<noteq> 6" by simp_all
  from error_tables_agree_with_formula
  have a: "\<forall>i<11. i \<noteq> 6 \<longrightarrow>
      agrees_to_rounding (N_dt_33035 ! i) (N_analitik ! i) (error_33035 ! i)"
    and b: "\<forall>i<11. \<bar>error_33035 ! i - rel_error (N_dt_33035 ! i) (N_analitik ! i)\<bar> \<le> 0.05"
    by blast+
  from a [rule_format, OF h k] b [rule_format, OF h] h k
  show ?thesis by (simp add: N_dt_33035_def error_33035_def)
qed

end
